(* ===== verification/Prelude.thy ===== *)
theory Prelude
  imports Main
begin

text \<open>
  Shared vocabulary of the StudyMate development: the JavaScript primitives the
  components call (\<open>String.prototype.trim\<close>, \<open>Number.prototype.toString\<close> on
  integers, array indexing that yields \<open>undefined\<close>), the type names of the model,
  the lemma collections the component theories feed, and the generic lemmas on
  lists that every \<open>prev.map(f => f.id === x ? {...} : f)\<close> updater needs.
\<close>

section \<open>Model types\<close>

text \<open>
  Milliseconds since the epoch, as returned by \<open>Date.now()\<close>; identifiers are the
  strings the source builds from them.
\<close>

type_synonym ms = nat
type_synonym js_id = string

section \<open>Lemma collections\<close>

named_theorems js_simps \<open>evaluation rules of the JavaScript primitives\<close>
named_theorems upd_simps \<open>equations of the state updaters of the components\<close>

section \<open>JavaScript primitives\<close>

text \<open>
  \<open>String.prototype.trim\<close> strips white space and line terminators at both ends.
  Characters of \<open>string\<close> are bytes: the ASCII members of ECMAScript's
  WhiteSpace and LineTerminator sets are modelled (TAB, LF, VT, FF, CR, SPACE).
\<close>

definition js_whitespace :: "char \<Rightarrow> bool" where
  "js_whitespace c \<longleftrightarrow> c \<in> set [CHR 0x09, CHR 0x0A, CHR 0x0B, CHR 0x0C, CHR 0x0D, CHR 0x20]"

definition js_trim :: "string \<Rightarrow> string" where
  "js_trim s = rev (dropWhile js_whitespace (rev (dropWhile js_whitespace s)))"

text \<open>
  Array indexing \<open>a[i]\<close>: \<open>None\<close> stands for \<open>undefined\<close> out of range, and the
  string concatenation \<open>'' '' + a[i]\<close> prints it as \<open>undefined\<close>.
\<close>

definition js_index :: "'a list \<Rightarrow> nat \<Rightarrow> 'a option" where
  "js_index xs i = (if i < length xs then Some (xs ! i) else None)"

definition js_str_or_undefined :: "string option \<Rightarrow> string" where
  "js_str_or_undefined v = (case v of Some s \<Rightarrow> s | None \<Rightarrow> ''undefined'')"

text \<open>\<open>s.endsWith(suf)\<close>\<close>

definition js_endsWith :: "string \<Rightarrow> string \<Rightarrow> bool" where
  "js_endsWith s suf \<longleftrightarrow> length suf \<le> length s \<and> drop (length s - length suf) s = suf"

text \<open>\<open>n.toString()\<close> for a non-negative integer \<open>n\<close>: its decimal digits.\<close>

definition decimal_digits :: string where
  "decimal_digits = ''0123456789''"

definition digit_char :: "nat \<Rightarrow> char" where
  "digit_char d = decimal_digits ! d"

fun string_of_nat :: "nat \<Rightarrow> string" where
  "string_of_nat n =
     (if n < 10 then [digit_char n] else string_of_nat (n div 10) @ [digit_char (n mod 10)])"

declare string_of_nat.simps [simp del]

text \<open>
  Reading decimal digits back (the inverse of \<open>toString\<close>, as \<open>parseInt\<close> reads a
  digit string): used to show that printed numbers denote what was printed.
\<close>

definition digit_value :: "char \<Rightarrow> nat" where
  "digit_value c = of_char c - 48"

definition nat_of_decimal :: "string \<Rightarrow> nat" where
  "nat_of_decimal s = foldl (\<lambda>n c. 10 * n + digit_value c) 0 s"

section \<open>Generic lemmas\<close>

lemma dropWhile_all_iff: "(\<forall>c \<in> set (dropWhile P s). P c) \<longleftrightarrow> dropWhile P s = []"
proof (cases "dropWhile P s")
  case Nil
  then show ?thesis by (auto dest: set_dropWhileD)
next
  case (Cons y ys)
  then have "\<not> P y" by (simp add: dropWhile_eq_Cons_conv)
  with Cons show ?thesis by auto
qed

lemma js_trim_Nil_iff [js_simps]:
  "js_trim s = [] \<longleftrightarrow> (\<forall>c \<in> set s. js_whitespace c)"
proof -
  have "js_trim s = [] \<longleftrightarrow> (\<forall>c \<in> set (dropWhile js_whitespace s). js_whitespace c)"
    by (simp add: js_trim_def dropWhile_eq_Nil_conv)
  also have "\<dots> \<longleftrightarrow> dropWhile js_whitespace s = []"
    by (rule dropWhile_all_iff)
  finally show ?thesis by (simp add: dropWhile_eq_Nil_conv)
qed

lemma js_index_Some [js_simps]: "i < length xs \<Longrightarrow> js_index xs i = Some (xs ! i)"
  by (simp add: js_index_def)

lemma js_index_None [js_simps]: "length xs \<le> i \<Longrightarrow> js_index xs i = None"
  by (simp add: js_index_def)

lemma js_index_in_set: "js_index xs i = Some x \<Longrightarrow> x \<in> set xs"
  by (auto simp: js_index_def split: if_splits)

lemma string_of_nat_Nil [simp]: "string_of_nat n \<noteq> []"
  by (subst string_of_nat.simps) simp

lemma digit_char_mem: "d < 10 \<Longrightarrow> digit_char d \<in> set decimal_digits"
  unfolding digit_char_def decimal_digits_def by (rule nth_mem) simp

lemma string_of_nat_digits: "set (string_of_nat n) \<subseteq> set decimal_digits"
proof (induction n rule: string_of_nat.induct)
  case (1 n)
  then show ?case
    by (subst string_of_nat.simps) (auto simp: digit_char_mem)
qed

lemma digit_value_digit_char [simp]: "d < 10 \<Longrightarrow> digit_value (digit_char d) = d"
  unfolding digit_char_def decimal_digits_def digit_value_def
  by (auto simp: less_Suc_eq numeral_eq_Suc)

text \<open>Round trip: the digits \<open>toString\<close> prints read back as the number.\<close>

lemma nat_of_decimal_string_of_nat [simp]: "nat_of_decimal (string_of_nat n) = n"
proof (induction n rule: string_of_nat.induct)
  case (1 n)
  show ?case
  proof (cases "n < 10")
    case True
    then show ?thesis by (simp add: string_of_nat.simps [of n] nat_of_decimal_def)
  next
    case False
    with "1.IH" show ?thesis
      by (simp add: string_of_nat.simps [of n] nat_of_decimal_def)
  qed
qed

lemma nat_of_decimal_simps [simp]:
  "nat_of_decimal [] = 0" "nat_of_decimal [c] = digit_value c"
  by (simp_all add: nat_of_decimal_def)

lemma string_of_nat_inj: "string_of_nat m = string_of_nat n \<longleftrightarrow> m = n"
  by (metis nat_of_decimal_string_of_nat)

text \<open>
  The list updaters \<open>prev.map(f => f.id === x ? g(f) : f)\<close>: what the component
  theories need to know about them, once.
\<close>

lemma map_if_key_notin [simp]:
  "x \<notin> key ` set xs \<Longrightarrow> map (\<lambda>f. if key f = x then g f else f) xs = xs"
  by (induction xs) auto

lemma map_if_key_comp:
  "map (\<lambda>f. if key f = x then g f else f) (map (\<lambda>f. if key f = x then h f else f) xs) =
   map (\<lambda>f. if key f = x then g (h f) else f) xs"
  if "\<And>f. key (h f) = key f"
  using that by (induction xs) auto

lemma key_image_map_if [simp]:
  "(\<lambda>f. key f) ` set (map (\<lambda>f. if key f = x then g f else f) xs) = key ` set xs"
  if "\<And>f. key (g f) = key f"
  using that by (induction xs) auto

lemma length_map_if [simp]: "length (map (\<lambda>f. if P f then g f else f) xs) = length xs"
  by simp

end
