(* ===== verification/FileSize.thy ===== *)
theory FileSize
  imports Prelude "HOL-Library.Log_Nat"
begin

text \<open>
  \<open>formatFileSize\<close> of PDFUploader.tsx (lines 25--31): the human-readable size string
  shown under each uploaded file. The source computes the unit index with
  floating-point logarithms, \<open>Math.floor(Math.log(bytes) / Math.log(1024))\<close>, scales
  by \<open>Math.pow(1024, i)\<close>, rounds with \<open>toFixed(2)\<close>, re-reads with \<open>parseFloat\<close> and
  prints the number followed by \<open>sizes[i]\<close>. The model is exact integer
  arithmetic: \<open>unit_index\<close> computes the floor of the logarithm by repeated
  division, and is proved equal to \<open>\<lfloor>log 1024 bytes\<rfloor>\<close> on the reals; the
  quotient \<open>bytes / 1024^i\<close> is a dyadic rational that a double holds exactly, so
  \<open>toFixed(2)\<close> is the round-half-up of its hundredths, and \<open>parseFloat\<close>
  followed by the implicit \<open>toString\<close> prints those hundredths without trailing
  zeros.
\<close>

section \<open>Definitions\<close>

definition sizes :: "string list" where
  "sizes = [''Bytes'', ''KB'', ''MB'', ''GB'']"

text \<open>\<open>Math.floor(Math.log(bytes) / Math.log(k))\<close>, by repeated division.\<close>

fun unit_index :: "nat \<Rightarrow> nat \<Rightarrow> nat" where
  "unit_index k b = (if b < k \<or> k < 2 then 0 else Suc (unit_index k (b div k)))"

declare unit_index.simps [simp del]

text \<open>\<open>(bytes / d).toFixed(2)\<close> as hundredths: round half up, as \<open>toFixed\<close> does.\<close>

definition to_fixed2 :: "nat \<Rightarrow> nat \<Rightarrow> nat" where
  "to_fixed2 b d = (200 * b + d) div (2 * d)"

text \<open>
  \<open>String(parseFloat(s))\<close> for the string \<open>s\<close> of \<open>n\<close> hundredths: the integer
  part, then the fraction without trailing zeros.
\<close>

definition decimal_2dp :: "nat \<Rightarrow> string" where
  "decimal_2dp n =
     string_of_nat (n div 100) @
     (let f = n mod 100 in
      if f = 0 then []
      else if f mod 10 = 0 then [CHR ''.'', digit_char (f div 10)]
      else [CHR ''.'', digit_char (f div 10), digit_char (f mod 10)])"

definition formatFileSize :: "nat \<Rightarrow> string" where
  "formatFileSize bytes =
     (if bytes = 0 then ''0 Bytes''
      else
        (let k = 1024; i = unit_index k bytes
         in decimal_2dp (to_fixed2 bytes (k ^ i)) @ '' '' @ js_str_or_undefined (js_index sizes i)))"


lemmas format_eval [js_simps] =
  unit_index.simps to_fixed2_def decimal_2dp_def
  string_of_nat.simps digit_char_def decimal_digits_def js_index_def
  js_str_or_undefined_def sizes_def

section \<open>The unit index is the floor of the logarithm\<close>

lemma unit_index_bounds:
  "2 \<le> k \<Longrightarrow> 0 < b \<Longrightarrow> k ^ unit_index k b \<le> b \<and> b < k ^ Suc (unit_index k b)"
proof (induction k b rule: unit_index.induct)
  case (1 k b)
  show ?case
  proof (cases "b < k")
    case True
    with "1.prems" show ?thesis by (simp add: unit_index.simps)
  next
    case False
    with "1.prems" have "0 < b div k" by (simp add: div_greater_zero_iff)
    with "1.IH" False "1.prems"
    have IH: "k ^ unit_index k (b div k) \<le> b div k \<and> b div k < k ^ Suc (unit_index k (b div k))"
      by simp
    have "k * k ^ unit_index k (b div k) \<le> k * (b div k)"
      using IH by simp
    also have "\<dots> \<le> b" by simp
    finally have lo: "k * k ^ unit_index k (b div k) \<le> b" .
    have hi: "b < k * k ^ Suc (unit_index k (b div k))"
      using IH "1.prems" by (simp add: div_less_iff_less_mult mult.commute)
    from lo hi False "1.prems" show ?thesis
      by (simp add: unit_index.simps [of k b])
  qed
qed

lemma floorlog_unit_index: "2 \<le> k \<Longrightarrow> 0 < b \<Longrightarrow> floorlog k b = Suc (unit_index k b)"
proof (induction k b rule: unit_index.induct)
  case (1 k b)
  show ?case
  proof (cases "b < k")
    case True
    then have "floorlog k (b div k) = 0" by (simp add: floorlog_eq_zero_iff)
    with True "1.prems" show ?thesis
      by (simp add: compute_floorlog [of k b] unit_index.simps)
  next
    case False
    with "1.prems" have "0 < b div k" by (simp add: div_greater_zero_iff)
    with "1.IH" False "1.prems" show ?thesis
      by (simp add: compute_floorlog [of k b] unit_index.simps [of k b])
  qed
qed

section \<open>Bounds of the printed number\<close>

lemma to_fixed2_bounds:
  assumes "0 < d" "d \<le> b" "b < 1024 * d"
  shows "100 \<le> to_fixed2 b d \<and> to_fixed2 b d \<le> 102400"
proof
  have "2 * d * 100 \<le> 200 * b + d" using assms by simp
  then show "100 \<le> to_fixed2 b d"
    unfolding to_fixed2_def using assms by (simp add: less_eq_div_iff_mult_less_eq)
next
  have "200 * b + d < 2 * d * 102401" using assms by simp
  then show "to_fixed2 b d \<le> 102400"
    unfolding to_fixed2_def using assms by (simp add: div_less_iff_less_mult less_Suc_eq_le [symmetric])
qed

lemma format_hundredths_bounds:
  "0 < b \<Longrightarrow> 100 \<le> to_fixed2 b (1024 ^ unit_index 1024 b) \<and>
                to_fixed2 b (1024 ^ unit_index 1024 b) \<le> 102400"
  using unit_index_bounds [of 1024 b] by (intro to_fixed2_bounds) simp_all

lemma formatFileSize_pos:
  "0 < b \<Longrightarrow> formatFileSize b =
     decimal_2dp (to_fixed2 b (1024 ^ unit_index 1024 b)) @ '' '' @
     js_str_or_undefined (js_index sizes (unit_index 1024 b))"
  by (simp add: formatFileSize_def Let_def)

lemma unit_index_less_iff: "0 < b \<Longrightarrow> unit_index 1024 b < n \<longleftrightarrow> b < 1024 ^ n"
proof -
  assume b: "0 < b"
  then have lo: "1024 ^ unit_index 1024 b \<le> b" and hi: "b < 1024 ^ Suc (unit_index 1024 b)"
    using unit_index_bounds [of 1024 b] by simp_all
  show ?thesis
  proof
    assume "unit_index 1024 b < n"
    then have "(1024::nat) ^ Suc (unit_index 1024 b) \<le> 1024 ^ n"
      by (intro power_increasing) simp_all
    with hi show "b < 1024 ^ n" by linarith
  next
    assume "b < 1024 ^ n"
    with lo have "(1024::nat) ^ unit_index 1024 b < 1024 ^ n" by linarith
    then show "unit_index 1024 b < n"
      by (simp add: power_strict_increasing_iff)
  qed
qed

section \<open>Printing and reading back\<close>




section \<open>Properties of formatFileSize\<close>

text \<open>
  C18: The unit index computed by repeated division is the value of the source's
  expression \<open>Math.floor(Math.log(bytes) / Math.log(1024))\<close>, read over the reals.
\<close>

theorem unit_index_is_floor_log:
  assumes "0 < b"
  shows "unit_index 1024 b = nat \<lfloor>ln (real b) / ln 1024\<rfloor>"
proof -
  have "floorlog 1024 b = Suc (unit_index 1024 b)"
    using assms by (simp add: floorlog_unit_index)
  moreover have "floorlog 1024 b = nat \<lfloor>log 1024 (real b)\<rfloor> + 1"
    using assms by (simp add: floorlog_def)
  ultimately show ?thesis by (simp add: log_def)
qed

text \<open>
  C19: For every size from one byte up to (not including) one terabyte the string is a
  number between 1 and 1024 with at most two decimals, a space and one of the four
  units of \<open>sizes\<close>.
\<close>

theorem formatFileSize_known_unit:
  assumes "0 < b" and "b < 1024 ^ 4"
  shows "\<exists>n u. formatFileSize b = decimal_2dp n @ '' '' @ u \<and> u \<in> set sizes \<and>
                100 \<le> n \<and> n \<le> 102400"
proof -
  let ?i = "unit_index 1024 b"
  have "?i < 4" using assms by (simp add: unit_index_less_iff)
  then have i: "?i < length sizes" by (simp add: sizes_def)
  then have "js_index sizes ?i = Some (sizes ! ?i)" by (rule js_index_Some)
  moreover have "sizes ! ?i \<in> set sizes" using i by (rule nth_mem)
  ultimately show ?thesis using assms format_hundredths_bounds [of b]
    by (auto simp: formatFileSize_pos js_str_or_undefined_def)
qed

text \<open>
  C20: From one terabyte on, \<open>sizes[i]\<close> is read past the end of the array and the
  unit printed is \<open>undefined\<close>.
\<close>

theorem formatFileSize_undefined_unit:
  assumes "1024 ^ 4 \<le> b"
  shows "\<exists>n. formatFileSize b = decimal_2dp n @ '' undefined''"
proof -
  have b: "0 < b" using assms by (rule dual_order.strict_trans1) simp
  with assms have "\<not> unit_index 1024 b < 4" by (simp add: unit_index_less_iff)
  then have "js_index sizes (unit_index 1024 b) = None"
    by (simp add: js_index_def sizes_def)
  with b show ?thesis
    by (simp add: formatFileSize_pos js_str_or_undefined_def) blast
qed

text \<open>
  C21: Rounding happens after the unit is chosen, so just below every unit boundary
  (Bytes to KB, KB to MB, MB to GB, GB to TB) the size is printed as 1024 of the
  smaller unit, never as 1 of the next: for every size \<open>b\<close> in the top \<open>1/200\<close> of
  the range of unit \<open>i\<close>, the string is \<open>1024 sizes[i]\<close>.
\<close>

theorem formatFileSize_1024_boundary:
  assumes "i < 4" and "204799 * 1024 ^ i \<le> 200 * b" and "b < 1024 ^ Suc i"
  shows "formatFileSize b = ''1024 '' @ sizes ! i"
proof -
  let ?d = "(1024::nat) ^ i"
  have d: "0 < ?d" by simp
  have lo: "?d \<le> b" using assms(2) by linarith
  then have b: "0 < b" using d by linarith
  have "unit_index 1024 b < Suc i" using b assms(3) by (simp add: unit_index_less_iff)
  moreover have "\<not> unit_index 1024 b < i" using b lo by (simp add: unit_index_less_iff not_less)
  ultimately have ui: "unit_index 1024 b = i" by simp
  have "2 * ?d * 102400 \<le> 200 * b + ?d" using assms(2) by simp
  moreover have "200 * b + ?d < 2 * ?d * Suc 102400" using assms(3) by simp
  ultimately have "to_fixed2 b ?d = 102400"
    unfolding to_fixed2_def by (rule div_nat_eqI)
  moreover have "decimal_2dp 102400 = ''1024''"
    by (simp add: decimal_2dp_def string_of_nat.simps digit_char_def decimal_digits_def)
  moreover have "js_index sizes i = Some (sizes ! i)" using assms(1) by (simp add: js_index_def sizes_def)
  ultimately show ?thesis using b ui by (simp add: formatFileSize_pos js_str_or_undefined_def)
qed


section \<open>Witnesses\<close>

theorem unit_index_is_floor_log_witness:
  "0 < (1536::nat) \<and> unit_index 1024 1536 = nat \<lfloor>ln (real (1536::nat)) / ln 1024\<rfloor>"
  using unit_index_is_floor_log [of 1536] by simp

theorem formatFileSize_known_unit_witness:
  "0 < (1536::nat) \<and> (1536::nat) < 1024 ^ 4 \<and>
   (\<exists>n u. formatFileSize 1536 = decimal_2dp n @ '' '' @ u \<and> u \<in> set sizes \<and>
          100 \<le> n \<and> n \<le> 102400)"
  using formatFileSize_known_unit [of 1536] by simp

theorem formatFileSize_undefined_unit_witness:
  "1024 ^ 4 \<le> (1099511627776::nat) \<and>
   (\<exists>n. formatFileSize 1099511627776 = decimal_2dp n @ '' undefined'')"
  using formatFileSize_undefined_unit [of 1099511627776] by simp

theorem formatFileSize_1024_boundary_witness:
  "(1::nat) < 4 \<and> 204799 * 1024 ^ 1 \<le> 200 * (1048575::nat) \<and> (1048575::nat) < 1024 ^ Suc 1 \<and>
   formatFileSize 1048575 = ''1024 '' @ sizes ! 1"
  using formatFileSize_1024_boundary [of 1 1048575] by simp


end
