(* ===== verification/Upload.thy ===== *)
theory Upload
  imports FileSize
begin

text \<open>
  The upload widget, PDFUploader.tsx. Its React state \<open>uploadedFiles\<close> is a list of
  \<open>UploadedFile\<close> records; every change of it is a functional updater
  \<open>setUploadedFiles(prev => ...)\<close>, modelled as a function on the list
  (\<open>add_file\<close>, \<open>set_progress\<close>, \<open>set_processing\<close>, \<open>set_completed\<close>,
  \<open>removeFile\<close>) and named by a constructor of \<open>upd\<close>. \<open>processFile\<close> is the list
  of updaters one call issues, in order; \<open>onDrop\<close> is the list of actions one drop
  issues (the updaters of each accepted file in turn, then the call of
  \<open>onFilesProcessed\<close> with the list read from the closure). The uploader as a whole
  is a deterministic machine over environment events (a drop, a click on remove,
  one resumed timer of one pending drop), so every interleaving of the
  asynchronous drops is a list of events.
\<close>

section \<open>Data\<close>

datatype status = Uploading | Processing | Completed | Error

text \<open>The browser's \<open>File\<close>: the fields the component and the drop zone read.\<close>

record js_file =
  fname :: string
  fsize :: nat
  ftype :: string

record uploaded_file =
  uf_id :: js_id
  uf_file :: js_file
  uf_name :: string
  uf_size :: string
  uf_status :: status
  uf_progress :: nat

type_synonym files = "uploaded_file list"

section \<open>The updaters\<close>

text \<open>\<open>setUploadedFiles(prev => [...prev, newFile])\<close>\<close>

definition add_file :: "uploaded_file \<Rightarrow> files \<Rightarrow> files" where
  "add_file newFile prev = prev @ [newFile]"

text \<open>\<open>prev.map(f => f.id === fileId ? { ...f, progress } : f)\<close>\<close>

definition set_progress :: "js_id \<Rightarrow> nat \<Rightarrow> files \<Rightarrow> files" where
  "set_progress fileId progress prev =
     map (\<lambda>f. if uf_id f = fileId then f\<lparr>uf_progress := progress\<rparr> else f) prev"

text \<open>\<open>{ ...f, status: 'processing', progress: 0 }\<close>\<close>

definition set_processing :: "js_id \<Rightarrow> files \<Rightarrow> files" where
  "set_processing fileId prev =
     map (\<lambda>f. if uf_id f = fileId then f\<lparr>uf_status := Processing, uf_progress := 0\<rparr> else f) prev"

text \<open>\<open>{ ...f, status: 'completed', progress: 100 }\<close>\<close>

definition set_completed :: "js_id \<Rightarrow> files \<Rightarrow> files" where
  "set_completed fileId prev =
     map (\<lambda>f. if uf_id f = fileId then f\<lparr>uf_status := Completed, uf_progress := 100\<rparr> else f) prev"

text \<open>\<open>removeFile\<close>: \<open>prev.filter(f => f.id !== fileId)\<close>\<close>

definition removeFile :: "js_id \<Rightarrow> files \<Rightarrow> files" where
  "removeFile fileId prev = filter (\<lambda>f. uf_id f \<noteq> fileId) prev"

datatype upd =
    AddFile uploaded_file
  | SetProgress js_id nat
  | SetProcessing js_id
  | SetCompleted js_id

fun apply_upd :: "upd \<Rightarrow> files \<Rightarrow> files" where
  "apply_upd (AddFile f) = add_file f"
| "apply_upd (SetProgress i p) = set_progress i p"
| "apply_upd (SetProcessing i) = set_processing i"
| "apply_upd (SetCompleted i) = set_completed i"

section \<open>processFile\<close>

text \<open>The record built for a dropped file (lines 36--43); its id is an input.\<close>

definition new_file :: "js_id \<Rightarrow> js_file \<Rightarrow> uploaded_file" where
  "new_file fileId file =
     \<lparr>uf_id = fileId, uf_file = file, uf_name = fname file,
      uf_size = formatFileSize (fsize file), uf_status = Uploading, uf_progress = 0\<rparr>"

text \<open>\<open>for (let progress = 0; progress <= 100; progress += 10)\<close>, one updater per round.\<close>

function upload_loop :: "js_id \<Rightarrow> nat \<Rightarrow> upd list" where
  "upload_loop fileId progress =
     (if progress \<le> 100 then SetProgress fileId progress # upload_loop fileId (progress + 10)
      else [])"
  by pat_completeness auto
termination
  by (relation "measure (\<lambda>(fileId, progress). 101 - progress)") auto

text \<open>\<open>for (let progress = 0; progress <= 100; progress += 20)\<close>\<close>

function processing_loop :: "js_id \<Rightarrow> nat \<Rightarrow> upd list" where
  "processing_loop fileId progress =
     (if progress \<le> 100 then SetProgress fileId progress # processing_loop fileId (progress + 20)
      else [])"
  by pat_completeness auto
termination
  by (relation "measure (\<lambda>(fileId, progress). 101 - progress)") auto

declare upload_loop.simps [simp del] processing_loop.simps [simp del]

definition processFile :: "js_id \<Rightarrow> js_file \<Rightarrow> upd list" where
  "processFile fileId file =
     AddFile (new_file fileId file) # upload_loop fileId 0 @ [SetProcessing fileId] @
     processing_loop fileId 0 @ [SetCompleted fileId]"

text \<open>
  The same body with its suspension points: \<open>processFile_code\<close> lists the
  statements of lines 44--71 in order, each \<open>await new Promise(setTimeout)\<close> of
  lines 48 and 62 as \<open>Await\<close>. React (18, automatic batching) paints the list once
  per synchronous run between two awaits, so \<open>segments\<close> cuts the statements at the
  awaits into the batches React applies together.
\<close>

datatype pf_stmt = SetState upd | Await

definition processFile_code :: "js_id \<Rightarrow> js_file \<Rightarrow> pf_stmt list" where
  "processFile_code fileId file =
     SetState (AddFile (new_file fileId file)) #
     concat (map (\<lambda>u. [Await, SetState u]) (upload_loop fileId 0)) @ [SetState (SetProcessing fileId)] @
     concat (map (\<lambda>u. [Await, SetState u]) (processing_loop fileId 0)) @ [SetState (SetCompleted fileId)]"

fun segments :: "pf_stmt list \<Rightarrow> upd list list" where
  "segments [] = [[]]"
| "segments (Await # ss) = [] # segments ss"
| "segments (SetState u # ss) = (let bs = segments ss in (u # hd bs) # tl bs)"

section \<open>onDrop and the drop zone\<close>

text \<open>
  \<open>useDropzone({accept: {'application/pdf': ['.pdf']}})\<close>: react-dropzone accepts a
  file whose MIME type is \<open>application/pdf\<close> or whose name ends in \<open>.pdf\<close>,
  compared in lower case.
\<close>

definition ascii_lower :: "char \<Rightarrow> char" where
  "ascii_lower c =
     (case map_of (zip ''ABCDEFGHIJKLMNOPQRSTUVWXYZ'' ''abcdefghijklmnopqrstuvwxyz'') c of
        Some d \<Rightarrow> d
      | None \<Rightarrow> c)"

definition pdf_accepted :: "js_file \<Rightarrow> bool" where
  "pdf_accepted file \<longleftrightarrow>
     map ascii_lower (ftype file) = ''application/pdf'' \<or> js_endsWith (map ascii_lower (fname file)) ''.pdf''"

datatype action = Upd upd | Notify files

text \<open>
  The actions of one call of \<open>onDrop(acceptedFiles)\<close>: each file processed in turn,
  then \<open>onFilesProcessed(uploadedFiles.filter(f => f.status === 'completed'))\<close>, where
  \<open>uploadedFiles\<close> is the value captured by \<open>useCallback\<close> when the drop happened.
\<close>

definition onDrop :: "files \<Rightarrow> (js_id \<times> js_file) list \<Rightarrow> action list" where
  "onDrop uploadedFiles acceptedFiles =
     concat (map (\<lambda>(fileId, file). map Upd (processFile fileId file)) acceptedFiles) @
     [Notify (filter (\<lambda>f. uf_status f = Completed) uploadedFiles)]"

section \<open>The uploader as an event machine\<close>

text \<open>
  The component's state (\<open>uploadedFiles\<close>) and the suspended \<open>onDrop\<close> calls, each the
  list of actions it has still to perform. A drop starts a new call with the files
  react-dropzone accepts (their ids are chosen by the environment, standing for
  \<open>Date.now() + Math.random()\<close>); a click on the remove button runs
  \<open>removeFile\<close>; \<open>Resume n\<close> lets the \<open>n\<close>-th call perform its next action, as
  a timer of that call firing. Every action is its own step, so the interleavings
  include every order in which the browser can fire the timers of concurrent drops.
  A step yields the list passed to \<open>onFilesProcessed\<close>, if it makes that call.
\<close>

record uploader =
  uploadedFiles :: files
  pending :: "action list list"

definition upl_init :: uploader where
  "upl_init = \<lparr>uploadedFiles = [], pending = []\<rparr>"

datatype upl_event = Drop "(js_id \<times> js_file) list" | Remove js_id | Resume nat

fun upl_step :: "uploader \<Rightarrow> upl_event \<Rightarrow> uploader \<times> files option" where
  "upl_step s (Drop batch) =
     (s\<lparr>pending := pending s @ [onDrop (uploadedFiles s) (filter (\<lambda>(i, f). pdf_accepted f) batch)]\<rparr>,
      None)"
| "upl_step s (Remove fileId) = (s\<lparr>uploadedFiles := removeFile fileId (uploadedFiles s)\<rparr>, None)"
| "upl_step s (Resume n) =
     (if n < length (pending s) then
        (case pending s ! n of
           [] \<Rightarrow> (s, None)
         | a # rest \<Rightarrow>
             (let s' = s\<lparr>pending := (pending s)[n := rest]\<rparr> in
              case a of
                Upd u \<Rightarrow> (s'\<lparr>uploadedFiles := apply_upd u (uploadedFiles s)\<rparr>, None)
              | Notify fs \<Rightarrow> (s', Some fs)))
      else (s, None))"

text \<open>A run: the final state and the calls of \<open>onFilesProcessed\<close>, in order.\<close>

fun upl_run :: "uploader \<Rightarrow> upl_event list \<Rightarrow> uploader \<times> files list" where
  "upl_run s [] = (s, [])"
| "upl_run s (e # es) =
     (let (s', out) = upl_step s e; (s'', outs) = upl_run s' es
      in (s'', (case out of None \<Rightarrow> outs | Some fs \<Rightarrow> fs # outs)))"

text \<open>The invariant: no file is in the \<open>error\<close> state or past 100 percent, and no pending action would put one there.\<close>

definition file_ok :: "uploaded_file \<Rightarrow> bool" where
  "file_ok f \<longleftrightarrow> uf_status f \<noteq> Error \<and> uf_progress f \<le> 100"

fun upd_ok :: "upd \<Rightarrow> bool" where
  "upd_ok (AddFile f) = file_ok f"
| "upd_ok (SetProgress i p) = (p \<le> 100)"
| "upd_ok (SetProcessing i) = True"
| "upd_ok (SetCompleted i) = True"

fun action_ok :: "action \<Rightarrow> bool" where
  "action_ok (Upd u) = upd_ok u"
| "action_ok (Notify fs) = True"

definition upl_inv :: "uploader \<Rightarrow> bool" where
  "upl_inv s \<longleftrightarrow> list_all file_ok (uploadedFiles s) \<and> list_all (list_all action_ok) (pending s)"

fun adds_id :: "js_id \<Rightarrow> action \<Rightarrow> bool" where
  "adds_id i (Upd (AddFile f)) = (uf_id f = i)"
| "adds_id i _ = False"

fun notifies_nonempty :: "action \<Rightarrow> bool" where
  "notifies_nonempty (Notify fs) = (fs \<noteq> [])"
| "notifies_nonempty (Upd u) = False"

definition rm_inv :: "js_id \<Rightarrow> uploader \<Rightarrow> bool" where
  "rm_inv i s \<longleftrightarrow> i \<notin> uf_id ` set (uploadedFiles s) \<and> \<not> list_ex (list_ex (adds_id i)) (pending s)"

text \<open>The reference semantics of one \<open>onDrop\<close> call run to its end without interference.\<close>

fun run_actions :: "action list \<Rightarrow> files \<Rightarrow> files \<times> files list" where
  "run_actions [] fs = (fs, [])"
| "run_actions (Upd u # as) fs = run_actions as (apply_upd u fs)"
| "run_actions (Notify x # as) fs = (let (fs', outs) = run_actions as fs in (fs', x # outs))"

section \<open>Running updaters\<close>

text \<open>
  The list after each updater of a sequence, in order: the states the updater queue
  passes through (React paints only those at the end of a batch, see \<open>paint_trace\<close>).
\<close>

fun run_trace :: "upd list \<Rightarrow> files \<Rightarrow> files list" where
  "run_trace [] fs = []"
| "run_trace (u # us) fs = apply_upd u fs # run_trace us (apply_upd u fs)"

text \<open>The list as painted after each batch of updaters.\<close>

fun paint_trace :: "upd list list \<Rightarrow> files \<Rightarrow> files list" where
  "paint_trace [] fs = []"
| "paint_trace (b # bs) fs = fold apply_upd b fs # paint_trace bs (fold apply_upd b fs)"

text \<open>What the list shows of one file: its status and progress, if it is there.\<close>

definition observe :: "js_id \<Rightarrow> files \<Rightarrow> (status \<times> nat) option" where
  "observe fileId fs =
     map_option (\<lambda>f. (uf_status f, uf_progress f)) (find (\<lambda>f. uf_id f = fileId) fs)"

text \<open>Updaters that touch only the file with a given id, and their effect on it.\<close>

fun targets :: "js_id \<Rightarrow> upd \<Rightarrow> bool" where
  "targets i (AddFile f) = False"
| "targets i (SetProgress j p) = (i = j)"
| "targets i (SetProcessing j) = (i = j)"
| "targets i (SetCompleted j) = (i = j)"

fun upd_rec :: "upd \<Rightarrow> uploaded_file \<Rightarrow> uploaded_file" where
  "upd_rec (AddFile g) f = f"
| "upd_rec (SetProgress j p) f = f\<lparr>uf_progress := p\<rparr>"
| "upd_rec (SetProcessing j) f = f\<lparr>uf_status := Processing, uf_progress := 0\<rparr>"
| "upd_rec (SetCompleted j) f = f\<lparr>uf_status := Completed, uf_progress := 100\<rparr>"

fun rec_trace :: "upd list \<Rightarrow> uploaded_file \<Rightarrow> uploaded_file list" where
  "rec_trace [] f = []"
| "rec_trace (u # us) f = upd_rec u f # rec_trace us (upd_rec u f)"

text \<open>The record of one file after each batch of updaters that target it.\<close>

fun rec_paint :: "upd list list \<Rightarrow> uploaded_file \<Rightarrow> uploaded_file list" where
  "rec_paint [] f = []"
| "rec_paint (b # bs) f = fold upd_rec b f # rec_paint bs (fold upd_rec b f)"

lemmas updater_defs [upd_simps] =
  add_file_def set_progress_def set_processing_def set_completed_def removeFile_def

lemma ascii_lower_other: "c \<notin> set ''ABCDEFGHIJKLMNOPQRSTUVWXYZ'' \<Longrightarrow> ascii_lower c = c"
  by (simp add: ascii_lower_def map_of_zip_is_None [THEN iffD2])

lemma uf_id_upd_rec [simp]: "uf_id (upd_rec u f) = uf_id f"
  by (cases u) simp_all

lemma apply_upd_snoc:
  assumes "targets (uf_id x) u" and "uf_id x \<notin> uf_id ` set fs"
  shows "apply_upd u (fs @ [x]) = fs @ [upd_rec u x]"
  using assms by (cases u) (simp_all add: updater_defs)

lemma run_trace_snoc:
  "\<forall>u \<in> set us. targets (uf_id x) u \<Longrightarrow> uf_id x \<notin> uf_id ` set fs \<Longrightarrow>
   run_trace us (fs @ [x]) = map (\<lambda>y. fs @ [y]) (rec_trace us x)"
  by (induction us arbitrary: x) (simp_all add: apply_upd_snoc)

lemma fold_apply_upd_snoc:
  "\<forall>u \<in> set us. targets (uf_id x) u \<Longrightarrow> uf_id x \<notin> uf_id ` set fs \<Longrightarrow>
   fold apply_upd us (fs @ [x]) = fs @ [fold upd_rec us x]"
  by (induction us arbitrary: x) (simp_all add: apply_upd_snoc)

lemma observe_snoc [simp]:
  "uf_id y = i \<Longrightarrow> i \<notin> uf_id ` set fs \<Longrightarrow> observe i (fs @ [y]) = Some (uf_status y, uf_progress y)"
  by (induction fs) (auto simp: observe_def)

lemma upload_loop_targets: "u \<in> set (upload_loop i p) \<Longrightarrow> targets i u"
  by (induction i p rule: upload_loop.induct) (subst (asm) upload_loop.simps, auto split: if_splits)

lemma processing_loop_targets: "u \<in> set (processing_loop i p) \<Longrightarrow> targets i u"
  by (induction i p rule: processing_loop.induct) (subst (asm) processing_loop.simps, auto split: if_splits)

lemma upload_loop_0: "upload_loop i 0 = map (\<lambda>k. SetProgress i (10 * k)) [0..<11]"
  by (simp add: upload_loop.simps upt_rec)

lemma processing_loop_0: "processing_loop i 0 = map (\<lambda>k. SetProgress i (20 * k)) [0..<6]"
  by (simp add: processing_loop.simps upt_rec)

text \<open>After its \<open>AddFile\<close>, every updater of \<open>processFile\<close> targets its own id.\<close>

lemma processFile_tail_targets:
  "\<forall>u \<in> set (upload_loop i 0 @ [SetProcessing i] @ processing_loop i 0 @ [SetCompleted i]).
     targets i u"
  using upload_loop_targets processing_loop_targets by auto

lemma uf_id_new_file [simp]: "uf_id (new_file i file) = i"
  by (simp add: new_file_def)

lemma processFile_fold:
  assumes "fileId \<notin> uf_id ` set fs"
  shows "fold apply_upd (processFile fileId file) fs =
         fs @ [fold upd_rec (upload_loop fileId 0 @ [SetProcessing fileId] @
                              processing_loop fileId 0 @ [SetCompleted fileId])
                 (new_file fileId file)]"
  using assms processFile_tail_targets [of fileId]
  by (simp add: processFile_def add_file_def fold_apply_upd_snoc del: fold_append)

lemma processFile_run_trace:
  assumes "fileId \<notin> uf_id ` set fs"
  shows "run_trace (processFile fileId file) fs =
         (fs @ [new_file fileId file]) #
         map (\<lambda>y. fs @ [y]) (rec_trace (upload_loop fileId 0 @ [SetProcessing fileId] @
                              processing_loop fileId 0 @ [SetCompleted fileId])
                 (new_file fileId file))"
  using assms processFile_tail_targets [of fileId]
  by (simp add: processFile_def add_file_def run_trace_snoc del: append.simps)

text \<open>Batches: the cut of \<open>processFile\<close> at its awaits, and the lists painted.\<close>

lemma segments_not_Nil [simp]: "segments ss \<noteq> []"
  by (induction ss rule: segments.induct) (simp_all add: Let_def)

lemma concat_segments:
  "concat (segments ss) = concat (map (\<lambda>s. case s of SetState u \<Rightarrow> [u] | Await \<Rightarrow> []) ss)"
proof (induction ss rule: segments.induct)
  case (3 u ss)
  then show ?case
    using segments_not_Nil [of ss] by (cases "segments ss") (simp_all add: Let_def)
qed simp_all

text \<open>Cutting \<open>processFile\<close> at its awaits loses and reorders no updater.\<close>

lemma processFile_code_updaters: "concat (segments (processFile_code i file)) = processFile i file"
proof -
  have "concat (map (\<lambda>s. case s of SetState u \<Rightarrow> [u] | Await \<Rightarrow> []) (concat (map (\<lambda>u. [Await, SetState u]) us))) = us"
    for us by (induction us) simp_all
  then show ?thesis unfolding concat_segments by (simp add: processFile_code_def processFile_def)
qed

lemma processFile_segments:
  "segments (processFile_code i file) =
     [AddFile (new_file i file)] # map (\<lambda>k. [SetProgress i (10 * k)]) [0..<10] @
     [[SetProgress i 100, SetProcessing i]] @ map (\<lambda>k. [SetProgress i (20 * k)]) [0..<5] @
     [[SetProgress i 100, SetCompleted i]]"
  by (simp add: processFile_code_def upload_loop_0 processing_loop_0 upt_rec Let_def)

lemma paint_trace_snoc:
  "\<forall>b \<in> set bs. \<forall>u \<in> set b. targets (uf_id x) u \<Longrightarrow> uf_id x \<notin> uf_id ` set fs \<Longrightarrow>
   paint_trace bs (fs @ [x]) = map (\<lambda>y. fs @ [y]) (rec_paint bs x)"
proof (induction bs arbitrary: x)
  case (Cons b bs)
  then have "fold apply_upd b (fs @ [x]) = fs @ [fold upd_rec b x]"
    by (simp add: fold_apply_upd_snoc)
  moreover have "uf_id (fold upd_rec b x) = uf_id x"
    by (induction b arbitrary: x) simp_all
  ultimately show ?case using Cons by simp
qed simp

lemma processFile_paint_trace:
  assumes "fileId \<notin> uf_id ` set fs"
  shows "paint_trace (segments (processFile_code fileId file)) fs =
         (fs @ [new_file fileId file]) #
         map (\<lambda>y. fs @ [y]) (rec_paint (tl (segments (processFile_code fileId file))) (new_file fileId file))"
proof -
  let ?rest = "tl (segments (processFile_code fileId file))"
  have split: "segments (processFile_code fileId file) = [AddFile (new_file fileId file)] # ?rest"
    by (simp add: processFile_segments)
  have "\<forall>b \<in> set ?rest. \<forall>u \<in> set b. targets fileId u"
    by (auto simp: processFile_segments)
  with assms have "paint_trace ?rest (fs @ [new_file fileId file]) =
                   map (\<lambda>y. fs @ [y]) (rec_paint ?rest (new_file fileId file))"
    by (intro paint_trace_snoc) simp_all
  then show ?thesis
    by (subst split) (simp add: add_file_def)
qed

section \<open>Properties of processFile run alone\<close>

text \<open>
  C1: \<open>processFile\<close> run without interference on a list that does not hold its id
  appends the new file and leaves it completed at 100 percent, every other file
  untouched.
\<close>

theorem processFile_result:
  assumes "fileId \<notin> uf_id ` set fs"
  shows "fold apply_upd (processFile fileId file) fs =
         fs @ [(new_file fileId file)\<lparr>uf_status := Completed, uf_progress := 100\<rparr>]"
  using assms by (simp add: processFile_fold upload_loop.simps processing_loop.simps)

text \<open>
  C2: The status and progress of the file, after each updater of \<open>processFile\<close> in
  turn, are exactly: uploading at 0, then 0, 10, ..., 100; processing at 0, then 0, 20,
  ..., 100; then completed at 100.
\<close>

theorem processFile_trace:
  assumes "fileId \<notin> uf_id ` set fs"
  shows "map (observe fileId) (run_trace (processFile fileId file) fs) =
         map Some ([(Uploading, 0)] @ map (\<lambda>k. (Uploading, 10 * k)) [0..<11] @
                   [(Processing, 0)] @ map (\<lambda>k. (Processing, 20 * k)) [0..<6] @
                   [(Completed, 100)])"
  using assms
  by (simp add: processFile_run_trace upload_loop.simps processing_loop.simps upt_rec new_file_def)

section \<open>The invariant of the event machine\<close>

lemma upload_loop_ok: "u \<in> set (upload_loop i p) \<Longrightarrow> upd_ok u"
  by (induction i p rule: upload_loop.induct) (subst (asm) upload_loop.simps, auto split: if_splits)

lemma processing_loop_ok: "u \<in> set (processing_loop i p) \<Longrightarrow> upd_ok u"
  by (induction i p rule: processing_loop.induct) (subst (asm) processing_loop.simps, auto split: if_splits)

lemma processFile_ok: "list_all upd_ok (processFile i file)"
  using upload_loop_ok [of _ i 0] processing_loop_ok [of _ i 0]
  by (auto simp: processFile_def new_file_def file_ok_def list_all_iff)

lemma onDrop_ok: "list_all action_ok (onDrop fs batch)"
  using processFile_ok by (auto simp: onDrop_def list_all_iff)

lemma apply_upd_ok:
  "upd_ok u \<Longrightarrow> list_all file_ok fs \<Longrightarrow> list_all file_ok (apply_upd u fs)"
  by (cases u) (auto simp: updater_defs file_ok_def list_all_iff)

lemma removeFile_ok: "list_all file_ok fs \<Longrightarrow> list_all file_ok (removeFile i fs)"
  by (auto simp: removeFile_def list_all_iff)

lemma list_all_update_tl:
  "list_all (list_all P) xss \<Longrightarrow> xss ! n = a # rest \<Longrightarrow> list_all (list_all P) (xss[n := rest])"
  by (induction xss arbitrary: n) (auto simp: nth_Cons split: nat.splits)

lemma list_all_nth_hd:
  "list_all (list_all P) xss \<Longrightarrow> n < length xss \<Longrightarrow> xss ! n = a # rest \<Longrightarrow> P a"
  by (metis list.pred_inject(2) list_all_length)

section \<open>Sequential runs of one pending call\<close>

lemma upl_run_Resume_alone:
  assumes "n < length (pending s)" and "pending s ! n = as"
  shows "upl_run s (replicate (length as) (Resume n)) =
         (s\<lparr>uploadedFiles := fst (run_actions as (uploadedFiles s)), pending := (pending s)[n := []]\<rparr>,
          snd (run_actions as (uploadedFiles s)))"
  using assms
proof (induction as arbitrary: s)
  case Nil
  then have "(pending s)[n := []] = pending s" by (metis list_update_id)
  then show ?case by simp
next
  case (Cons a as)
  then show ?case
    by (cases a) (auto simp: Let_def split: prod.splits)
qed

lemma upl_step_Resume_cases:
  assumes "upl_step s (Resume n) = (s', out)"
  shows "s' = s \<or>
         (\<exists>a rest. n < length (pending s) \<and> pending s ! n = a # rest \<and>
            pending s' = (pending s)[n := rest] \<and>
            uploadedFiles s' = (case a of Upd u \<Rightarrow> apply_upd u (uploadedFiles s)
                                         | Notify fs \<Rightarrow> uploadedFiles s))"
  using assms by (auto simp: Let_def split: if_splits list.splits action.splits)

lemma upl_step_inv: "upl_inv s \<Longrightarrow> upl_inv (fst (upl_step s e))"
proof (cases e)
  case (Resume n)
  assume inv: "upl_inv s"
  obtain s' out where st: "upl_step s (Resume n) = (s', out)" by fastforce
  from upl_step_Resume_cases [OF st] have "upl_inv s'"
  proof
    assume "s' = s"
    with inv show ?thesis by simp
  next
    assume "\<exists>a rest. n < length (pending s) \<and> pending s ! n = a # rest \<and>
              pending s' = (pending s)[n := rest] \<and>
              uploadedFiles s' = (case a of Upd u \<Rightarrow> apply_upd u (uploadedFiles s)
                                           | Notify fs \<Rightarrow> uploadedFiles s)"
    then obtain a rest where n: "n < length (pending s)" and a: "pending s ! n = a # rest"
      and p: "pending s' = (pending s)[n := rest]"
      and f: "uploadedFiles s' = (case a of Upd u \<Rightarrow> apply_upd u (uploadedFiles s)
                                           | Notify fs \<Rightarrow> uploadedFiles s)"
      by blast
    from inv have P: "list_all (list_all action_ok) (pending s)"
      and F: "list_all file_ok (uploadedFiles s)" by (simp_all add: upl_inv_def)
    from P n a have "action_ok a" by (rule list_all_nth_hd)
    with F f have "list_all file_ok (uploadedFiles s')"
      by (cases a) (simp_all add: apply_upd_ok)
    moreover from P a p have "list_all (list_all action_ok) (pending s')"
      by (simp add: list_all_update_tl)
    ultimately show ?thesis by (simp add: upl_inv_def)
  qed
  with st Resume show ?thesis by simp
qed (auto simp: upl_inv_def onDrop_ok removeFile_ok)

lemma upl_run_Cons_fst: "fst (upl_run s (e # es)) = fst (upl_run (fst (upl_step s e)) es)"
  by (simp split: prod.splits)

lemma upl_run_inv: "upl_inv s \<Longrightarrow> upl_inv (fst (upl_run s evs))"
  by (induction evs arbitrary: s) (simp_all add: upl_run_Cons_fst upl_step_inv del: upl_run.simps(2))

lemma upl_run_append:
  "upl_run s (es @ es') =
   (let (s', outs) = upl_run s es; (s'', outs') = upl_run s' es' in (s'', outs @ outs'))"
  by (induction es arbitrary: s) (auto split: prod.splits option.splits)

lemma run_actions_map_Upd:
  "run_actions (map Upd us @ as) fs = run_actions as (fold apply_upd us fs)"
  by (induction us arbitrary: fs) simp_all

lemma run_actions_onDrop:
  "run_actions (onDrop fs0 batch) fs =
   (fold apply_upd (concat (map (\<lambda>(i, f). processFile i f) batch)) fs,
    [filter (\<lambda>f. uf_status f = Completed) fs0])"
proof -
  have "concat (map (\<lambda>(i, f). map Upd (processFile i f)) batch) =
        map Upd (concat (map (\<lambda>(i, f). processFile i f) batch))"
    by (induction batch) auto
  then show ?thesis by (simp add: onDrop_def run_actions_map_Upd)
qed

lemma upl_run_Drop_alone:
  "upl_run s (Drop b # replicate (length (onDrop (uploadedFiles s) (filter (\<lambda>(i, f). pdf_accepted f) b)))
                          (Resume (length (pending s)))) =
   (s\<lparr>uploadedFiles := fst (run_actions (onDrop (uploadedFiles s) (filter (\<lambda>(i, f). pdf_accepted f) b))
                                          (uploadedFiles s)),
      pending := pending s @ [[]]\<rparr>,
    snd (run_actions (onDrop (uploadedFiles s) (filter (\<lambda>(i, f). pdf_accepted f) b)) (uploadedFiles s)))"
  by (simp add: upl_run_Resume_alone split: prod.splits)

lemma upload_loop_no_add: "\<not> list_ex (adds_id i) (map Upd (upload_loop j p))"
  by (induction j p rule: upload_loop.induct) (subst upload_loop.simps, simp)

lemma processing_loop_no_add: "\<not> list_ex (adds_id i) (map Upd (processing_loop j p))"
  by (induction j p rule: processing_loop.induct) (subst processing_loop.simps, simp)

lemma processFile_adds: "list_ex (adds_id i) (map Upd (processFile j file)) \<Longrightarrow> i = j"
  using upload_loop_no_add [of i j 0] processing_loop_no_add [of i j 0]
  by (simp add: processFile_def)

lemma onDrop_adds: "list_ex (adds_id i) (onDrop fs b) \<Longrightarrow> i \<in> fst ` set b"
  by (induction b) (auto simp: onDrop_def dest: processFile_adds)

lemma apply_upd_ids:
  "i \<notin> uf_id ` set fs \<Longrightarrow> \<not> adds_id i (Upd u) \<Longrightarrow> i \<notin> uf_id ` set (apply_upd u fs)"
  by (cases u) (auto simp: updater_defs)

lemma list_ex_update_tl:
  "\<not> list_ex (list_ex P) xss \<Longrightarrow> xss ! n = a # rest \<Longrightarrow> n < length xss \<Longrightarrow>
   \<not> list_ex (list_ex P) (xss[n := rest]) \<and> \<not> P a"
  by (induction xss arbitrary: n) (auto simp: nth_Cons split: nat.splits)

lemma upl_step_rm_inv:
  assumes "rm_inv i s" and "\<forall>b. e = Drop b \<longrightarrow> i \<notin> fst ` set b"
  shows "rm_inv i (fst (upl_step s e))"
proof (cases e)
  case (Drop b)
  have "\<not> list_ex (adds_id i) (onDrop (uploadedFiles s) (filter (\<lambda>(i, f). pdf_accepted f) b))"
  proof
    assume "list_ex (adds_id i) (onDrop (uploadedFiles s) (filter (\<lambda>(i, f). pdf_accepted f) b))"
    then have "i \<in> fst ` set (filter (\<lambda>(i, f). pdf_accepted f) b)" by (rule onDrop_adds)
    with assms(2) Drop show False by auto
  qed
  with assms(1) Drop show ?thesis by (simp add: rm_inv_def)
next
  case (Remove j)
  with assms(1) show ?thesis by (auto simp: rm_inv_def removeFile_def)
next
  case (Resume n)
  obtain s' out where st: "upl_step s (Resume n) = (s', out)" by fastforce
  from upl_step_Resume_cases [OF st] have "rm_inv i s'"
  proof
    assume "s' = s"
    with assms show ?thesis by simp
  next
    assume "\<exists>a rest. n < length (pending s) \<and> pending s ! n = a # rest \<and>
              pending s' = (pending s)[n := rest] \<and>
              uploadedFiles s' = (case a of Upd u \<Rightarrow> apply_upd u (uploadedFiles s)
                                           | Notify fs \<Rightarrow> uploadedFiles s)"
    then obtain a rest where n: "n < length (pending s)" and a: "pending s ! n = a # rest"
      and p: "pending s' = (pending s)[n := rest]"
      and f: "uploadedFiles s' = (case a of Upd u \<Rightarrow> apply_upd u (uploadedFiles s)
                                           | Notify fs \<Rightarrow> uploadedFiles s)"
      by blast
    from assms(1) have P: "\<not> list_ex (list_ex (adds_id i)) (pending s)"
      and F: "i \<notin> uf_id ` set (uploadedFiles s)" by (simp_all add: rm_inv_def)
    from list_ex_update_tl [OF P a n]
    have rest: "\<not> list_ex (list_ex (adds_id i)) ((pending s)[n := rest])"
      and na: "\<not> adds_id i a" by blast+
    have "i \<notin> uf_id ` set (uploadedFiles s')"
    proof (cases a)
      case (Upd u)
      with F na f show ?thesis by (simp add: apply_upd_ids)
    next
      case (Notify fs)
      with F f show ?thesis by simp
    qed
    with rest p show ?thesis by (simp add: rm_inv_def)
  qed
  with st Resume show ?thesis by simp
qed

lemma upl_run_rm_inv:
  "rm_inv i s \<Longrightarrow> \<forall>b. Drop b \<in> set evs \<longrightarrow> i \<notin> fst ` set b \<Longrightarrow> rm_inv i (fst (upl_run s evs))"
  by (induction evs arbitrary: s) (simp_all add: upl_run_Cons_fst upl_step_rm_inv del: upl_run.simps(2))

lemma upl_step_quiet:
  assumes "\<not> list_ex (list_ex notifies_nonempty) (pending s)" and "\<forall>b. e \<noteq> Drop b"
  shows "\<not> list_ex (list_ex notifies_nonempty) (pending (fst (upl_step s e))) \<and>
         (\<forall>fs. snd (upl_step s e) = Some fs \<longrightarrow> fs = [])"
proof (cases e)
  case (Resume n)
  obtain s' out where st: "upl_step s (Resume n) = (s', out)" by fastforce
  have "\<not> list_ex (list_ex notifies_nonempty) (pending s') \<and> (\<forall>fs. out = Some fs \<longrightarrow> fs = [])"
  proof (cases "n < length (pending s)")
    case True
    show ?thesis
    proof (cases "pending s ! n")
      case Nil
      with True st show ?thesis using assms(1) by simp
    next
      case (Cons a rest)
      from list_ex_update_tl [OF assms(1) Cons True]
      have rest: "\<not> list_ex (list_ex notifies_nonempty) ((pending s)[n := rest])"
        and na: "\<not> notifies_nonempty a" by blast+
      with True Cons st show ?thesis
        by (cases a) (auto simp: Let_def)
    qed
  next
    case False
    with st assms(1) show ?thesis by simp
  qed
  with st Resume show ?thesis by simp
qed (use assms in simp_all)

lemma upl_run_quiet:
  "\<not> list_ex (list_ex notifies_nonempty) (pending s) \<Longrightarrow> list_all (\<lambda>e. \<forall>b. e \<noteq> Drop b) es \<Longrightarrow>
   list_all (\<lambda>fs. fs = []) (snd (upl_run s es))"
proof (induction es arbitrary: s)
  case Nil
  then show ?case by simp
next
  case (Cons e es)
  obtain s' out where st: "upl_step s e = (s', out)" by fastforce
  from upl_step_quiet [of s e] Cons.prems st
  have q: "\<not> list_ex (list_ex notifies_nonempty) (pending s')" and o: "\<forall>fs. out = Some fs \<longrightarrow> fs = []"
    by simp_all
  from Cons.IH [OF q] Cons.prems have "list_all (\<lambda>fs. fs = []) (snd (upl_run s' es))" by simp
  with o st show ?case by (cases out) (auto split: prod.splits)
qed

lemma onDrop_quiet:
  "filter (\<lambda>f. uf_status f = Completed) fs = [] \<Longrightarrow> \<not> list_ex notifies_nonempty (onDrop fs b)"
proof -
  have "\<not> list_ex notifies_nonempty (concat (map (\<lambda>(i, f). map Upd (processFile i f)) b))"
    by (induction b) (auto simp: list_ex_iff)
  then show "filter (\<lambda>f. uf_status f = Completed) fs = [] \<Longrightarrow> \<not> list_ex notifies_nonempty (onDrop fs b)"
    by (simp add: onDrop_def)
qed

text \<open>An empty drop still reports, once resumed, the completed files of its closure.\<close>

lemma onDrop_Nil: "onDrop fs [] = [Notify (filter (\<lambda>f. uf_status f = Completed) fs)]"
  by (simp add: onDrop_def)

lemma upl_run_Drop_Nil:
  "upl_run s [Drop []] = (s\<lparr>pending := pending s @ [onDrop (uploadedFiles s) []]\<rparr>, [])"
  by simp

section \<open>Properties of the event machine\<close>

text \<open>
  C3: Whatever the order of drops, removals and timers, no file of the list is ever
  in the \<open>error\<close> state, and no progress exceeds 100: the declared \<open>Error\<close> status is
  unreachable.
\<close>

theorem upl_reachable_no_error:
  "list_all (\<lambda>f. uf_status f \<noteq> Error \<and> uf_progress f \<le> 100)
     (uploadedFiles (fst (upl_run upl_init evs)))"
proof -
  have "upl_inv upl_init" by (simp add: upl_inv_def upl_init_def)
  then have "upl_inv (fst (upl_run upl_init evs))" by (rule upl_run_inv)
  then show ?thesis by (simp add: upl_inv_def file_ok_def list_all_iff)
qed

text \<open>
  C4: A drop whose timers fire one after the other, with no other event in between,
  behaves as the sequential reading of \<open>onDrop\<close>: the accepted files are processed in
  order by \<open>processFile\<close>, then \<open>onFilesProcessed\<close> is called once.
\<close>

theorem drop_alone_refines:
  "upl_run s (Drop b # replicate (length (onDrop (uploadedFiles s) (filter (\<lambda>(i, f). pdf_accepted f) b)))
                          (Resume (length (pending s)))) =
   (s\<lparr>uploadedFiles := fold apply_upd (concat (map (\<lambda>(i, f). processFile i f)
                                           (filter (\<lambda>(i, f). pdf_accepted f) b))) (uploadedFiles s),
      pending := pending s @ [[]]\<rparr>,
    [filter (\<lambda>f. uf_status f = Completed) (uploadedFiles s)])"
  by (simp only: upl_run_Drop_alone run_actions_onDrop prod.sel)

text \<open>
  C5: A removed file never comes back: once its id is gone from the list and no
  pending call or later drop adds that id, the timers of the call that was
  processing it only update a list without it.
\<close>

theorem removed_file_stays_removed:
  assumes "fileId \<notin> uf_id ` set (uploadedFiles s)"
    and "\<not> list_ex (list_ex (adds_id fileId)) (pending s)"
    and "\<forall>b. Drop b \<in> set evs \<longrightarrow> fileId \<notin> fst ` set b"
  shows "fileId \<notin> uf_id ` set (uploadedFiles (fst (upl_run s evs)))"
proof -
  from assms(1,2) have "rm_inv fileId s" by (simp add: rm_inv_def)
  then have "rm_inv fileId (fst (upl_run s evs))" using assms(3) by (rule upl_run_rm_inv)
  then show ?thesis by (simp add: rm_inv_def)
qed

section \<open>Witnesses\<close>

theorem processFile_result_witness:
  "''a'' \<notin> uf_id ` set ([] :: files) \<and>
   fold apply_upd (processFile ''a'' \<lparr>fname = ''n.pdf'', fsize = 0, ftype = ''''\<rparr>) [] =
   [(new_file ''a'' \<lparr>fname = ''n.pdf'', fsize = 0, ftype = ''''\<rparr>)\<lparr>uf_status := Completed, uf_progress := 100\<rparr>]"
  using processFile_result [of "''a''" "[]" "\<lparr>fname = ''n.pdf'', fsize = 0, ftype = ''''\<rparr>"] by simp

theorem processFile_trace_witness:
  "''a'' \<notin> uf_id ` set ([] :: files) \<and>
   map (observe ''a'') (run_trace (processFile ''a'' \<lparr>fname = ''n.pdf'', fsize = 0, ftype = ''''\<rparr>) []) =
   map Some ([(Uploading, 0)] @ map (\<lambda>k. (Uploading, 10 * k)) [0..<11] @
             [(Processing, 0)] @ map (\<lambda>k. (Processing, 20 * k)) [0..<6] @ [(Completed, 100)])"
  using processFile_trace [of "''a''" "[]" "\<lparr>fname = ''n.pdf'', fsize = 0, ftype = ''''\<rparr>"] by simp

theorem removed_file_stays_removed_witness:
  "''a'' \<notin> uf_id ` set (uploadedFiles \<lparr>uploadedFiles = [], pending = [map Upd (upload_loop ''a'' 0)]\<rparr>) \<and>
   \<not> list_ex (list_ex (adds_id ''a'')) (pending \<lparr>uploadedFiles = [], pending = [map Upd (upload_loop ''a'' 0)]\<rparr>) \<and>
   ''a'' \<notin> uf_id ` set (uploadedFiles (fst (upl_run \<lparr>uploadedFiles = [], pending = [map Upd (upload_loop ''a'' 0)]\<rparr>
                                              (replicate 11 (Resume 0)))))"
proof -
  let ?s = "\<lparr>uploadedFiles = [], pending = [map Upd (upload_loop ''a'' 0)]\<rparr>"
  have h1: "''a'' \<notin> uf_id ` set (uploadedFiles ?s)" by simp
  have h2: "\<not> list_ex (list_ex (adds_id ''a'')) (pending ?s)"
    using upload_loop_no_add [of "''a''" "''a''" 0] by simp
  have h3: "\<forall>b. Drop b \<in> set (replicate 11 (Resume 0)) \<longrightarrow> ''a'' \<notin> fst ` set b" by simp
  show ?thesis using h1 h2 h3 removed_file_stays_removed [OF h1 h2 h3] by blast
qed

end
