(* ===== verification/Chat.thy ===== *)
theory Chat
  imports Prelude
begin

text \<open>
  The chat widget, ChatInterface.tsx. Its React state is the list \<open>messages\<close>, the
  text field \<open>inputValue\<close> and the flag \<open>isLoading\<close>; the one timer
  \<open>simulateAIResponse\<close> waits on is counted in \<open>replies_due\<close>. React batches the
  updates of one synchronous segment, so the widget has two atomic handlers: the
  segment of \<open>handleSendMessage\<close> up to the \<open>await\<close> (\<open>handleSendMessage\<close> here), and
  the segment after the 2000 ms timer (\<open>ai_reply\<close>). Each is written as the
  composition of its \<open>setX\<close> calls in source order. \<open>Date.now()\<close> is the time of
  the event and \<open>Math.random()\<close> the 53-bit integer \<open>k\<close> with value \<open>k / 2^53\<close>.
\<close>

section \<open>Data\<close>

datatype sender = User | Ai

record message =
  msg_id :: js_id
  content :: string
  sender :: sender
  timestamp :: ms
  isTyping :: bool

record chat_state =
  messages :: "message list"
  inputValue :: string
  isLoading :: bool
  replies_due :: nat

definition welcome_text :: string where
  "welcome_text = ''Hello! I'm StudyMate AI. I've analyzed your uploaded documents and I'm ready to help you learn. Ask me anything about your study materials!''"

text \<open>The state at mount (lines 22--31).\<close>

definition chat_init :: "ms \<Rightarrow> chat_state" where
  "chat_init now =
     \<lparr>messages = [\<lparr>msg_id = ''1'', content = welcome_text, sender = Ai, timestamp = now, isTyping = False\<rparr>],
      inputValue = [], isLoading = False, replies_due = 0\<rparr>"

definition suggestedQuestions :: "string list" where
  "suggestedQuestions =
     [''Summarize the main concepts from this document'',
      ''What are the key formulas I should remember?'',
      ''Explain this topic in simple terms'',
      ''Create a study plan from this material'',
      ''What are the most important points to review?'']"

definition responses :: "string list" where
  "responses =
     [''Based on your uploaded documents, I can see that this topic involves several key concepts. Let me break them down for you in a clear, structured way...'',
      ''Great question! From the materials you've provided, I found relevant information that directly addresses this. Here's what I discovered...'',
      ''I've analyzed the content in your PDFs and found some interesting insights about this topic. The main points include...'',
      ''Excellent question! This is a fundamental concept covered in your study materials. Let me explain it step by step...'',
      ''I can help you understand this better by connecting it to the examples and explanations in your uploaded documents...'']"

section \<open>Handlers\<close>

text \<open>The \<open>Message\<close> objects the handlers build; every id is \<open>Date.now().toString()\<close>.\<close>

definition user_message :: "ms \<Rightarrow> string \<Rightarrow> message" where
  "user_message now text =
     \<lparr>msg_id = string_of_nat now, content = text, sender = User, timestamp = now, isTyping = False\<rparr>"

definition typing_message :: "ms \<Rightarrow> message" where
  "typing_message now =
     \<lparr>msg_id = string_of_nat now, content = [], sender = Ai, timestamp = now, isTyping = True\<rparr>"

text \<open>\<open>responses[Math.floor(Math.random() * responses.length)]\<close>\<close>

definition random_index :: "nat \<Rightarrow> nat \<Rightarrow> nat" where
  "random_index k len = (k * len) div 2 ^ 53"

definition ai_message :: "ms \<Rightarrow> nat \<Rightarrow> message" where
  "ai_message now k =
     \<lparr>msg_id = string_of_nat now,
      content = js_str_or_undefined (js_index responses (random_index k (length responses))),
      sender = Ai, timestamp = now, isTyping = False\<rparr>"

text \<open>
  \<open>handleSendMessage\<close> up to its \<open>await\<close>: the guard, the user message, the cleared
  field, then the synchronous part of \<open>simulateAIResponse\<close> (loading flag, typing
  indicator) and the start of its timer. The two ids are two reads of
  \<open>Date.now()\<close>: \<open>now\<close> at line 91 for the user message, \<open>now'\<close> at line 53 for the
  typing indicator; the clock may or may not tick between them.
\<close>

definition handleSendMessage :: "ms \<Rightarrow> ms \<Rightarrow> chat_state \<Rightarrow> chat_state" where
  "handleSendMessage now now' s =
     (if js_trim (inputValue s) = [] \<or> isLoading s then s
      else
        (let s1 = s\<lparr>messages := messages s @ [user_message now (inputValue s)]\<rparr>;
             s2 = s1\<lparr>inputValue := []\<rparr>;
             s3 = s2\<lparr>isLoading := True\<rparr>;
             s4 = s3\<lparr>messages := messages s3 @ [typing_message now']\<rparr>
         in s4\<lparr>replies_due := Suc (replies_due s4)\<rparr>))"

text \<open>
  The rest of \<open>simulateAIResponse\<close>, when its timer fires: remove the typing
  indicator, append the reply, clear the loading flag.
\<close>

definition ai_reply :: "ms \<Rightarrow> nat \<Rightarrow> chat_state \<Rightarrow> chat_state" where
  "ai_reply now k s =
     (let s1 = s\<lparr>messages := filter (\<lambda>m. \<not> isTyping m) (messages s)\<rparr>;
          s2 = s1\<lparr>messages := messages s1 @ [ai_message now k]\<rparr>;
          s3 = s2\<lparr>isLoading := False\<rparr>
      in s3\<lparr>replies_due := replies_due s3 - 1\<rparr>)"

text \<open>\<open>handleKeyPress\<close>: Enter without Shift sends.\<close>

definition handleKeyPress :: "string \<Rightarrow> bool \<Rightarrow> ms \<Rightarrow> ms \<Rightarrow> chat_state \<Rightarrow> chat_state" where
  "handleKeyPress key shiftKey now now' s =
     (if key = ''Enter'' \<and> \<not> shiftKey then handleSendMessage now now' s else s)"

text \<open>
  \<open>handleSuggestedQuestion\<close>, reachable through the first three suggestion buttons,
  which are rendered only while \<open>messages.length <= 1\<close>.
\<close>

definition suggestions_shown :: "chat_state \<Rightarrow> bool" where
  "suggestions_shown s \<longleftrightarrow> length (messages s) \<le> 1"

definition handleSuggestedQuestion :: "nat \<Rightarrow> chat_state \<Rightarrow> chat_state" where
  "handleSuggestedQuestion i s =
     (if suggestions_shown s \<and> i < 3 then s\<lparr>inputValue := suggestedQuestions ! i\<rparr> else s)"

section \<open>The widget as an event machine\<close>

datatype chat_event =
    Type string
  | KeyPress string bool ms ms
  | SendClick ms ms
  | Suggest nat
  | ReplyTimer ms nat

fun chat_step :: "chat_state \<Rightarrow> chat_event \<Rightarrow> chat_state" where
  "chat_step s (Type v) = s\<lparr>inputValue := v\<rparr>"
| "chat_step s (KeyPress key shiftKey now now') = handleKeyPress key shiftKey now now' s"
| "chat_step s (SendClick now now') = handleSendMessage now now' s"
| "chat_step s (Suggest i) = handleSuggestedQuestion i s"
| "chat_step s (ReplyTimer now k) = (if 0 < replies_due s then ai_reply now k s else s)"

definition chat_run :: "chat_state \<Rightarrow> chat_event list \<Rightarrow> chat_state" where
  "chat_run s evs = fold (\<lambda>e s. chat_step s e) evs s"

text \<open>
  The invariant: as many typing indicators as replies due, at most one, and the
  loading flag set exactly while one is due.
\<close>

definition chat_inv :: "chat_state \<Rightarrow> bool" where
  "chat_inv s \<longleftrightarrow>
     length (filter isTyping (messages s)) = replies_due s \<and> replies_due s \<le> 1 \<and>
     isLoading s = (replies_due s = 1)"

section \<open>Handler equations\<close>

lemma handleSendMessage_ignored:
  "js_trim (inputValue s) = [] \<or> isLoading s \<Longrightarrow> handleSendMessage now now' s = s"
  by (simp add: handleSendMessage_def)

lemma handleSendMessage_eq:
  "js_trim (inputValue s) \<noteq> [] \<Longrightarrow> \<not> isLoading s \<Longrightarrow>
   handleSendMessage now now' s =
     s\<lparr>messages := messages s @ [user_message now (inputValue s), typing_message now'],
       inputValue := [], isLoading := True, replies_due := Suc (replies_due s)\<rparr>"
  by (simp add: handleSendMessage_def Let_def)

lemma ai_reply_eq:
  "ai_reply now k s =
     s\<lparr>messages := filter (\<lambda>m. \<not> isTyping m) (messages s) @ [ai_message now k],
       isLoading := False, replies_due := replies_due s - 1\<rparr>"
  by (simp add: ai_reply_def Let_def)

lemma message_flags [simp]:
  "isTyping (user_message now text) = False" "isTyping (typing_message now) = True"
  "isTyping (ai_message now k) = False" "sender (user_message now text) = User"
  "sender (typing_message now) = Ai" "sender (ai_message now k) = Ai"
  by (simp_all add: user_message_def typing_message_def ai_message_def)

lemmas chat_handler_eqs = handleSendMessage_ignored handleSendMessage_eq ai_reply_eq

section \<open>The invariant\<close>

lemma chat_init_inv: "chat_inv (chat_init now)"
  by (simp add: chat_inv_def chat_init_def)

lemma handleSendMessage_inv: "chat_inv s \<Longrightarrow> chat_inv (handleSendMessage now now' s)"
  by (cases "js_trim (inputValue s) = [] \<or> isLoading s")
     (auto simp: chat_inv_def chat_handler_eqs)

lemma chat_step_inv: "chat_inv s \<Longrightarrow> chat_inv (chat_step s e)"
proof (cases e)
  case (KeyPress key shiftKey now now')
  assume "chat_inv s"
  then show ?thesis using KeyPress
    by (simp add: handleKeyPress_def handleSendMessage_inv)
next
  case (SendClick now now')
  assume "chat_inv s"
  then show ?thesis using SendClick by (simp add: handleSendMessage_inv)
next
  case (ReplyTimer now k)
  assume "chat_inv s"
  then show ?thesis using ReplyTimer
    by (auto simp: chat_inv_def ai_reply_eq filter_empty_conv)
qed (simp_all add: chat_inv_def handleSuggestedQuestion_def)

lemma chat_run_inv: "chat_inv s \<Longrightarrow> chat_inv (chat_run s evs)"
  unfolding chat_run_def by (induction evs arbitrary: s) (simp_all add: chat_step_inv)

lemma random_index_bound: "k < 2 ^ 53 \<Longrightarrow> 0 < len \<Longrightarrow> random_index k len < len"
  by (simp add: random_index_def div_less_iff_less_mult mult.commute)

lemma ai_message_in_responses: "k < 2 ^ 53 \<Longrightarrow> content (ai_message now k) \<in> set responses"
proof -
  assume "k < 2 ^ 53"
  then have "random_index k (length responses) < length responses"
    by (intro random_index_bound) (simp_all add: responses_def)
  then show "content (ai_message now k) \<in> set responses"
    by (simp add: ai_message_def js_index_def js_str_or_undefined_def)
qed

section \<open>Properties of the chat widget\<close>

text \<open>
  C11: Sending a blank or whitespace-only input changes nothing: no message is
  appended, the flag and the field are unchanged.
\<close>

theorem chat_send_blank_ignored:
  assumes "\<forall>c \<in> set (inputValue s). js_whitespace c"
  shows "handleSendMessage now now' s = s"
  using assms by (simp add: handleSendMessage_ignored js_trim_Nil_iff)

text \<open>
  C12: While a reply is pending (\<open>isLoading\<close>), sending changes nothing, so no second
  typing indicator is appended.
\<close>

theorem chat_send_loading_ignored:
  assumes "isLoading s"
  shows "handleSendMessage now now' s = s"
  using assms by (simp add: handleSendMessage_ignored)

text \<open>
  C13: A send with a non-blank input while idle appends the user's message with the
  input as its text and then the typing indicator, clears the field and sets the
  loading flag.
\<close>

theorem chat_send_appends:
  assumes "js_trim (inputValue s) \<noteq> []" and "\<not> isLoading s"
  shows "messages (handleSendMessage now now' s) =
           messages s @ [user_message now (inputValue s), typing_message now'] \<and>
         inputValue (handleSendMessage now now' s) = [] \<and> isLoading (handleSendMessage now now' s)"
  using assms by (simp add: handleSendMessage_eq)

text \<open>
  C14: In every state the widget reaches from its mount, whatever the user types,
  clicks or presses and whenever the timer fires, at most one typing indicator is
  shown, and one is shown exactly while the loading flag is set.
\<close>

theorem chat_one_placeholder:
  "length (filter isTyping (messages (chat_run (chat_init now) evs))) \<le> 1 \<and>
   isLoading (chat_run (chat_init now) evs) =
     (length (filter isTyping (messages (chat_run (chat_init now) evs))) = 1)"
proof -
  have "chat_inv (chat_run (chat_init now) evs)"
    by (rule chat_run_inv [OF chat_init_inv])
  then show ?thesis by (simp add: chat_inv_def)
qed

text \<open>
  C15: For every value \<open>Math.random()\<close> can return, the reply is one of the five fixed
  strings, it is the last message, and no typing indicator is left.
\<close>

theorem chat_reply_in_responses:
  assumes "k < 2 ^ 53"
  shows "content (last (messages (ai_reply now k s))) \<in> set responses \<and>
         \<not> list_ex isTyping (messages (ai_reply now k s))"
  using ai_message_in_responses [OF assms] by (simp add: ai_reply_eq list_ex_iff)

text \<open>
  C16: The user's message and the typing indicator of one send get the same id
  exactly when the two \<open>Date.now()\<close> reads of the send (lines 91 and 53, in one
  synchronous run) fall in the same millisecond: then two list items share a React
  key. Ids are decimal strings, so distinct milliseconds always give distinct ids.
\<close>

theorem chat_send_duplicate_ids:
  assumes "js_trim (inputValue s) \<noteq> []" and "\<not> isLoading s"
  shows "\<exists>u t. messages (handleSendMessage now now' s) = messages s @ [u, t] \<and>
                sender u = User \<and> isTyping t \<and> (msg_id u = msg_id t \<longleftrightarrow> now = now')"
  using assms by (simp add: handleSendMessage_eq user_message_def typing_message_def string_of_nat_inj)

text \<open>
  C17: From an idle state without typing indicator, a send followed by the reply
  timer leaves the earlier messages, then the user's message, then the reply: the
  indicator is gone and the question is kept before the answer.
\<close>

theorem chat_send_then_reply:
  assumes "\<not> list_ex isTyping (messages s)" and "js_trim (inputValue s) \<noteq> []"
    and "\<not> isLoading s"
  shows "messages (chat_run s [SendClick t1 t1', ReplyTimer t2 k]) =
         messages s @ [user_message t1 (inputValue s), ai_message t2 k]"
proof -
  from assms(1) have "filter (\<lambda>m. \<not> isTyping m) (messages s) = messages s"
    by (simp add: list_ex_iff filter_id_conv)
  with assms(2,3) show ?thesis
    by (simp add: chat_run_def handleSendMessage_eq ai_reply_eq)
qed

section \<open>Witnesses\<close>

theorem chat_send_blank_ignored_witness:
  "handleSendMessage 7 7 ((chat_init 0)\<lparr>inputValue := ''  ''\<rparr>) = (chat_init 0)\<lparr>inputValue := ''  ''\<rparr>"
  using chat_send_blank_ignored [of "(chat_init 0)\<lparr>inputValue := ''  ''\<rparr>" 7 7]
  by (simp add: js_whitespace_def)

theorem chat_send_loading_ignored_witness:
  "isLoading ((chat_init 0)\<lparr>isLoading := True, inputValue := ''Hi''\<rparr>) \<and>
   handleSendMessage 7 7 ((chat_init 0)\<lparr>isLoading := True, inputValue := ''Hi''\<rparr>) =
     (chat_init 0)\<lparr>isLoading := True, inputValue := ''Hi''\<rparr>"
  using chat_send_loading_ignored [of "(chat_init 0)\<lparr>isLoading := True, inputValue := ''Hi''\<rparr>" 7 7]
  by simp

theorem chat_send_appends_witness:
  "js_trim (inputValue ((chat_init 0)\<lparr>inputValue := ''Hi''\<rparr>)) \<noteq> [] \<and>
   \<not> isLoading ((chat_init 0)\<lparr>inputValue := ''Hi''\<rparr>) \<and>
   messages (handleSendMessage 7 7 ((chat_init 0)\<lparr>inputValue := ''Hi''\<rparr>)) =
     messages (chat_init 0) @ [user_message 7 ''Hi'', typing_message 7]"
  using chat_send_appends [of "(chat_init 0)\<lparr>inputValue := ''Hi''\<rparr>" 7 7]
  by (simp add: js_trim_Nil_iff js_whitespace_def chat_init_def)

theorem chat_reply_in_responses_witness:
  "(12345 :: nat) < 2 ^ 53 \<and>
   content (last (messages (ai_reply 2007 12345 (chat_init 0)))) \<in> set responses"
  using chat_reply_in_responses [of 12345 2007 "chat_init 0"] by simp

theorem chat_send_duplicate_ids_witness:
  "js_trim (inputValue ((chat_init 0)\<lparr>inputValue := ''Hi''\<rparr>)) \<noteq> [] \<and>
   \<not> isLoading ((chat_init 0)\<lparr>inputValue := ''Hi''\<rparr>) \<and>
   (\<exists>u t. messages (handleSendMessage 7 8 ((chat_init 0)\<lparr>inputValue := ''Hi''\<rparr>)) =
            messages ((chat_init 0)\<lparr>inputValue := ''Hi''\<rparr>) @ [u, t] \<and>
          sender u = User \<and> isTyping t \<and> (msg_id u = msg_id t \<longleftrightarrow> (7::nat) = 8))"
  using chat_send_duplicate_ids [of "(chat_init 0)\<lparr>inputValue := ''Hi''\<rparr>" 7 8]
  by (simp add: js_trim_Nil_iff js_whitespace_def chat_init_def)

theorem chat_send_then_reply_witness:
  "\<not> list_ex isTyping (messages ((chat_init 0)\<lparr>inputValue := ''Hi''\<rparr>)) \<and>
   js_trim (inputValue ((chat_init 0)\<lparr>inputValue := ''Hi''\<rparr>)) \<noteq> [] \<and>
   \<not> isLoading ((chat_init 0)\<lparr>inputValue := ''Hi''\<rparr>) \<and>
   messages (chat_run ((chat_init 0)\<lparr>inputValue := ''Hi''\<rparr>) [SendClick 7 7, ReplyTimer 2007 12345]) =
     messages (chat_init 0) @ [user_message 7 ''Hi'', ai_message 2007 12345]"
  using chat_send_then_reply [of "(chat_init 0)\<lparr>inputValue := ''Hi''\<rparr>" 7 7 2007 12345]
  by (simp add: js_trim_Nil_iff js_whitespace_def chat_init_def)

end
