(* ===== verification/Page.thy ===== *)
theory Page
  imports Upload Chat
begin

text \<open>
  The page coordinator, pages/StudyMate.tsx, with the two widgets it mounts. Its
  state is \<open>showMainApp\<close>, \<open>uploadedFiles\<close> (here \<open>page_files\<close>) and \<open>activeTab\<close>.
  Radix \<open>TabsContent\<close> renders its children only while its tab is active, so the
  uploader exists only on the upload tab and the chat only on the chat tab with a
  non-empty file list; an unmounted widget's state is lost, and a fresh instance
  starts from \<open>upl_init\<close> or \<open>chat_init\<close>. A suspended \<open>onDrop\<close> call of an unmounted
  uploader goes on (\<open>orphans\<close>): its \<open>setUploadedFiles\<close> calls are no-ops, but its
  final \<open>onFilesProcessed\<close> still reaches the page. The landing view (HeroSection)
  only emits \<open>onGetStarted\<close>.
\<close>

section \<open>State and handlers\<close>

record page =
  showMainApp :: bool
  page_files :: files
  activeTab :: string
  uploader_inst :: "uploader option"
  chat_inst :: "chat_state option"
  orphans :: "action list list"

definition page_init :: page where
  "page_init =
     \<lparr>showMainApp = False, page_files = [], activeTab = ''upload'',
      uploader_inst = None, chat_inst = None, orphans = []\<rparr>"

definition handleGetStarted :: "page \<Rightarrow> page" where
  "handleGetStarted p = p\<lparr>showMainApp := True\<rparr>"

definition handleBack :: "page \<Rightarrow> page" where
  "handleBack p = p\<lparr>showMainApp := False\<rparr>"

definition handleFilesProcessed :: "files \<Rightarrow> page \<Rightarrow> page" where
  "handleFilesProcessed fs p =
     (let p1 = p\<lparr>page_files := fs\<rparr> in if fs \<noteq> [] then p1\<lparr>activeTab := ''chat''\<rparr> else p1)"

definition setActiveTab :: "string \<Rightarrow> page \<Rightarrow> page" where
  "setActiveTab t p = p\<lparr>activeTab := t\<rparr>"

section \<open>Mounting\<close>

definition uploader_shown :: "page \<Rightarrow> bool" where
  "uploader_shown p \<longleftrightarrow> showMainApp p \<and> activeTab p = ''upload''"

definition chat_shown :: "page \<Rightarrow> bool" where
  "chat_shown p \<longleftrightarrow> showMainApp p \<and> activeTab p = ''chat'' \<and> page_files p \<noteq> []"

text \<open>After a render: mount what is shown and was not, unmount what is no longer shown.\<close>

definition reconcile :: "ms \<Rightarrow> page \<Rightarrow> page" where
  "reconcile now p =
     (let p1 = (case uploader_inst p of
                  None \<Rightarrow> if uploader_shown p then p\<lparr>uploader_inst := Some upl_init\<rparr> else p
                | Some u \<Rightarrow> if uploader_shown p then p
                            else p\<lparr>uploader_inst := None, orphans := orphans p @ pending u\<rparr>)
      in case chat_inst p1 of
           None \<Rightarrow> if chat_shown p1 then p1\<lparr>chat_inst := Some (chat_init now)\<rparr> else p1
         | Some c \<Rightarrow> if chat_shown p1 then p1 else p1\<lparr>chat_inst := None\<rparr>)"

section \<open>Events\<close>

datatype page_event =
    GetStarted
  | Back
  | SelectTab string
  | UploaderEv upl_event
  | OrphanResume nat
  | ChatEv chat_event

definition deliver :: "files option \<Rightarrow> page \<Rightarrow> page" where
  "deliver out p = (case out of None \<Rightarrow> p | Some fs \<Rightarrow> handleFilesProcessed fs p)"

fun page_handle :: "page \<Rightarrow> page_event \<Rightarrow> page" where
  "page_handle p GetStarted = handleGetStarted p"
| "page_handle p Back = handleBack p"
| "page_handle p (SelectTab t) = setActiveTab t p"
| "page_handle p (UploaderEv e) =
     (case uploader_inst p of
        None \<Rightarrow> p
      | Some u \<Rightarrow> (let (u', out) = upl_step u e in deliver out (p\<lparr>uploader_inst := Some u'\<rparr>)))"
| "page_handle p (OrphanResume n) =
     (if n < length (orphans p) then
        (case orphans p ! n of
           [] \<Rightarrow> p
         | a # rest \<Rightarrow>
             (let p1 = p\<lparr>orphans := (orphans p)[n := rest]\<rparr> in
              case a of Upd u \<Rightarrow> p1 | Notify fs \<Rightarrow> handleFilesProcessed fs p1))
      else p)"
| "page_handle p (ChatEv e) =
     (case chat_inst p of None \<Rightarrow> p | Some c \<Rightarrow> p\<lparr>chat_inst := Some (chat_step c e)\<rparr>)"

definition page_step :: "page \<Rightarrow> ms \<times> page_event \<Rightarrow> page" where
  "page_step p te = reconcile (fst te) (page_handle p (snd te))"

definition page_run :: "page \<Rightarrow> (ms \<times> page_event) list \<Rightarrow> page" where
  "page_run p evs = fold (\<lambda>te p. page_step p te) evs p"

section \<open>The page while the uploader reports nothing\<close>

lemma reconcile_upload_tab:
  "uploader_shown q \<Longrightarrow> uploader_inst q \<noteq> None \<Longrightarrow> chat_inst q = None \<Longrightarrow> reconcile now q = q"
  by (auto simp: reconcile_def chat_shown_def uploader_shown_def)

lemma page_step_uploader_quiet:
  assumes "uploader_shown p" and "uploader_inst p = Some u" and "chat_inst p = None"
    and "upl_step u e = (u', out)" and "\<forall>fs. out = Some fs \<longrightarrow> fs = []"
  shows "page_step p (t, UploaderEv e) =
         p\<lparr>uploader_inst := Some u', page_files := (if out = None then page_files p else [])\<rparr>"
proof (cases out)
  case None
  with assms show ?thesis
    by (simp add: page_step_def deliver_def reconcile_upload_tab uploader_shown_def)
next
  case (Some fs)
  with assms show ?thesis
    by (simp add: page_step_def deliver_def handleFilesProcessed_def reconcile_upload_tab
        uploader_shown_def)
qed

lemma page_run_uploader_quiet:
  assumes "uploader_shown p" and "uploader_inst p = Some u" and "chat_inst p = None"
    and "length ts = length es" and "list_all (\<lambda>fs. fs = []) (snd (upl_run u es))"
  shows "page_run p (zip ts (map UploaderEv es)) =
         p\<lparr>uploader_inst := Some (fst (upl_run u es)),
           page_files := (if snd (upl_run u es) = [] then page_files p else [])\<rparr>"
  using assms
proof (induction es arbitrary: p u ts)
  case Nil
  then show ?case by (simp add: page_run_def)
next
  case (Cons e es)
  obtain t ts' where ts: "ts = t # ts'" using Cons.prems(4) by (cases ts) auto
  obtain u' out where st: "upl_step u e = (u', out)" by fastforce
  obtain u'' outs' where r: "upl_run u' es = (u'', outs')" by fastforce
  have outs: "snd (upl_run u (e # es)) =
              (case out of None \<Rightarrow> snd (upl_run u' es) | Some fs \<Rightarrow> fs # snd (upl_run u' es))"
    using st r by (cases out) simp_all
  with Cons.prems(5) have o: "\<forall>fs. out = Some fs \<longrightarrow> fs = []"
    and rest: "list_all (\<lambda>fs. fs = []) (snd (upl_run u' es))"
    by (auto split: option.splits)
  let ?p' = "p\<lparr>uploader_inst := Some u', page_files := (if out = None then page_files p else [])\<rparr>"
  have step: "page_step p (t, UploaderEv e) = ?p'"
    using Cons.prems(1-3) st o by (rule page_step_uploader_quiet)
  have "page_run ?p' (zip ts' (map UploaderEv es)) =
        ?p'\<lparr>uploader_inst := Some (fst (upl_run u' es)),
             page_files := (if snd (upl_run u' es) = [] then page_files ?p' else [])\<rparr>"
    using Cons.prems(1,3,4) ts rest
    by (intro Cons.IH) (simp_all add: uploader_shown_def)
  moreover have "fst (upl_run u (e # es)) = fst (upl_run u' es)"
    using st by (simp split: prod.splits)
  ultimately show ?case
    using step ts outs by (cases out) (simp_all add: page_run_def)
qed

lemma page_run_Cons: "page_run p (te # tes) = page_run (page_step p te) tes"
  by (simp add: page_run_def)

lemma page_run_append: "page_run p (xs @ ys) = page_run (page_run p xs) ys"
  by (simp add: page_run_def)

lemma page_step_GetStarted_init:
  "page_step page_init (t, GetStarted) = page_init\<lparr>showMainApp := True, uploader_inst := Some upl_init\<rparr>"
  by (simp add: page_step_def handleGetStarted_def reconcile_def page_init_def uploader_shown_def
      chat_shown_def)

lemma zip_resumes:
  "(t1, UploaderEv (Drop b)) # map (\<lambda>(t, n). (t, UploaderEv (Resume n))) rs =
   zip (t1 # map fst rs) (map UploaderEv (Drop b # map (\<lambda>(t, n). Resume n) rs))"
  by (induction rs) auto

lemma upl_run_first_drop_quiet:
  "filter (\<lambda>f. uf_status f = Completed) (uploadedFiles u) = [] \<Longrightarrow>
   \<not> list_ex (list_ex notifies_nonempty) (pending u) \<Longrightarrow>
   list_all (\<lambda>e. \<forall>b. e \<noteq> Drop b) es \<Longrightarrow>
   list_all (\<lambda>fs. fs = []) (snd (upl_run u (Drop b # es)))"
  using upl_run_quiet [of "fst (upl_step u (Drop b))" es]
    onDrop_quiet [of "uploadedFiles u" "filter (\<lambda>(i, f). pdf_accepted f) b"]
  by (simp split: prod.splits)

text \<open>After every render the chat is mounted only over a non-empty document list.\<close>

lemma reconcile_chat_files:
  "chat_inst (reconcile now p) = None \<or> page_files (reconcile now p) \<noteq> []"
  by (auto simp: reconcile_def chat_shown_def Let_def split: option.splits)

lemma page_run_chat_files:
  "chat_inst (page_run page_init evs) = None \<or> page_files (page_run page_init evs) \<noteq> []"
  by (induction evs rule: rev_induct) (simp_all add: page_run_def page_init_def page_step_def reconcile_chat_files)

section \<open>Properties of the page\<close>

text \<open>
  C6: When the uploader reports a non-empty list, the page stores it, switches to the
  chat tab, mounts the chat widget and unmounts the uploader.
\<close>

theorem files_processed_opens_chat:
  assumes "showMainApp p" and "fs \<noteq> []"
  shows "page_files (reconcile now (handleFilesProcessed fs p)) = fs \<and>
         activeTab (reconcile now (handleFilesProcessed fs p)) = ''chat'' \<and>
         chat_inst (reconcile now (handleFilesProcessed fs p)) \<noteq> None \<and>
         uploader_inst (reconcile now (handleFilesProcessed fs p)) = None"
  using assms
  by (auto simp: reconcile_def handleFilesProcessed_def chat_shown_def uploader_shown_def
      Let_def split: option.splits)

text \<open>
  C7: After "Get started", the first batch dropped never opens the chat: however its
  timers fire, the page keeps an empty file list, stays on the upload tab and never
  mounts the chat widget.
\<close>

theorem first_batch_never_opens_chat:
  "page_files (page_run page_init ((t0, GetStarted) # (t1, UploaderEv (Drop b)) #
                 map (\<lambda>(t, n). (t, UploaderEv (Resume n))) rs)) = [] \<and>
   activeTab (page_run page_init ((t0, GetStarted) # (t1, UploaderEv (Drop b)) #
                 map (\<lambda>(t, n). (t, UploaderEv (Resume n))) rs)) = ''upload'' \<and>
   chat_inst (page_run page_init ((t0, GetStarted) # (t1, UploaderEv (Drop b)) #
                 map (\<lambda>(t, n). (t, UploaderEv (Resume n))) rs)) = None"
proof -
  let ?p1 = "page_init\<lparr>showMainApp := True, uploader_inst := Some upl_init\<rparr>"
  let ?es = "Drop b # map (\<lambda>(t, n). Resume n) rs"
  have p1: "page_step page_init (t0, GetStarted) = ?p1"
    by (simp add: page_step_def handleGetStarted_def reconcile_def page_init_def
        uploader_shown_def chat_shown_def)
  have quiet: "list_all (\<lambda>fs. fs = []) (snd (upl_run upl_init ?es))"
    by (rule upl_run_first_drop_quiet) (auto simp: upl_init_def list_all_iff)
  have "page_run ?p1 (zip (t1 # map fst rs) (map UploaderEv ?es)) =
        ?p1\<lparr>uploader_inst := Some (fst (upl_run upl_init ?es)),
             page_files := (if snd (upl_run upl_init ?es) = [] then page_files ?p1 else [])\<rparr>"
    using quiet by (intro page_run_uploader_quiet) (simp_all add: uploader_shown_def page_init_def)
  then have "page_run page_init ((t0, GetStarted) # (t1, UploaderEv (Drop b)) #
               map (\<lambda>(t, n). (t, UploaderEv (Resume n))) rs) =
        ?p1\<lparr>uploader_inst := Some (fst (upl_run upl_init ?es)),
             page_files := (if snd (upl_run upl_init ?es) = [] then page_files ?p1 else [])\<rparr>"
    unfolding zip_resumes page_run_Cons p1 .
  then show ?thesis by (simp add: page_init_def)
qed

text \<open>
  C8: Going back to the upload tab remounts a fresh uploader, and a batch dropped
  there and processed to its end reports the empty list: the page's documents are
  replaced by none and the chat widget is gone.
\<close>

theorem reupload_clears_documents:
  assumes "showMainApp p" and "uploader_inst p = None"
    and "length ts = length (onDrop [] (filter (\<lambda>(i, f). pdf_accepted f) b))"
  shows "page_files (page_run p ((t1, SelectTab ''upload'') #
            zip (t2 # ts) (map UploaderEv (Drop b # replicate (length ts) (Resume 0))))) = [] \<and>
         chat_inst (page_run p ((t1, SelectTab ''upload'') #
            zip (t2 # ts) (map UploaderEv (Drop b # replicate (length ts) (Resume 0))))) = None"
proof -
  let ?p1 = "p\<lparr>activeTab := ''upload'', uploader_inst := Some upl_init, chat_inst := None\<rparr>"
  let ?es = "Drop b # replicate (length ts) (Resume 0)"
  have p1: "page_step p (t1, SelectTab ''upload'') = ?p1"
    using assms(1,2)
    by (auto simp: page_step_def setActiveTab_def reconcile_def uploader_shown_def chat_shown_def
        Let_def split: option.splits)
  have run: "upl_run upl_init ?es =
             (upl_init\<lparr>uploadedFiles := fst (run_actions (onDrop [] (filter (\<lambda>(i, f). pdf_accepted f) b)) []),
                       pending := [[]]\<rparr>, [[]])"
    using upl_run_Drop_alone [of upl_init b] assms(3)
    by (simp add: upl_init_def run_actions_onDrop)
  have q: "list_all (\<lambda>fs. fs = []) (snd (upl_run upl_init ?es))"
    by (simp only: run) simp
  have "page_run ?p1 (zip (t2 # ts) (map UploaderEv ?es)) =
        ?p1\<lparr>uploader_inst := Some (fst (upl_run upl_init ?es)),
             page_files := (if snd (upl_run upl_init ?es) = [] then page_files ?p1 else [])\<rparr>"
    using assms(1) q by (intro page_run_uploader_quiet) (simp_all add: uploader_shown_def)
  then show ?thesis unfolding page_run_Cons p1 run by simp
qed

section \<open>Witnesses\<close>

theorem files_processed_opens_chat_witness:
  "showMainApp (page_init\<lparr>showMainApp := True\<rparr>) \<and>
   [new_file ''a'' \<lparr>fname = ''n.pdf'', fsize = 0, ftype = []\<rparr>] \<noteq> [] \<and>
   activeTab (reconcile 0 (handleFilesProcessed [new_file ''a'' \<lparr>fname = ''n.pdf'', fsize = 0, ftype = []\<rparr>]
                            (page_init\<lparr>showMainApp := True\<rparr>))) = ''chat''"
  using files_processed_opens_chat [of "page_init\<lparr>showMainApp := True\<rparr>"
          "[new_file ''a'' \<lparr>fname = ''n.pdf'', fsize = 0, ftype = []\<rparr>]" 0]
  by simp

theorem reupload_clears_documents_witness:
  "showMainApp (page_init\<lparr>showMainApp := True, activeTab := ''chat''\<rparr>) \<and>
   uploader_inst (page_init\<lparr>showMainApp := True, activeTab := ''chat''\<rparr>) = None \<and>
   length [1] = length (onDrop [] (filter (\<lambda>(i, f). pdf_accepted f)
                                        [(''a'', \<lparr>fname = ''n.txt'', fsize = 0, ftype = []\<rparr>)])) \<and>
   page_files (page_run (page_init\<lparr>showMainApp := True, activeTab := ''chat''\<rparr>)
     ((0, SelectTab ''upload'') #
      zip (1 # [1]) (map UploaderEv (Drop [(''a'', \<lparr>fname = ''n.txt'', fsize = 0, ftype = []\<rparr>)] #
                                         replicate (length [1::nat]) (Resume 0))))) = []"
proof -
  have h: "length [1::nat] = length (onDrop [] (filter (\<lambda>(i, f). pdf_accepted f)
                                        [(''a'', \<lparr>fname = ''n.txt'', fsize = 0, ftype = []\<rparr>)]))"
    by (simp add: onDrop_def pdf_accepted_def js_endsWith_def ascii_lower_def)
  show ?thesis
    using h reupload_clears_documents [of "page_init\<lparr>showMainApp := True, activeTab := ''chat''\<rparr>"
            "[1::nat]" "[(''a'', \<lparr>fname = ''n.txt'', fsize = 0, ftype = []\<rparr>)]" 0 1]
    by (simp add: page_init_def)
qed

end
