(* ===== verification/UploadView.thy ===== *)
theory UploadView
  imports Upload
begin

text \<open>
  What the upload widget renders (PDFUploader.tsx lines 96--231), as a pure function
  of its state: the drop area's title, the heading with the number of files, and one
  row per uploaded file with its name, size, status icon, status text and, while the
  file is uploading or processing, a progress bar. Markup, classes and animation are
  dropped; every value the user reads is kept.
\<close>

section \<open>Definitions\<close>

text \<open>The three \<open>lucide-react\<close> icons of \<open>getStatusIcon\<close> (lines 96--106).\<close>

datatype status_icon = Loader2 | CheckCircle2 | AlertCircle

primrec getStatusIcon :: "status \<Rightarrow> status_icon" where
  "getStatusIcon Uploading = Loader2"
| "getStatusIcon Processing = Loader2"
| "getStatusIcon Completed = CheckCircle2"
| "getStatusIcon Error = AlertCircle"

primrec getStatusText :: "status \<Rightarrow> string" where
  "getStatusText Uploading = ''Uploading...''"
| "getStatusText Processing = ''Processing PDF...''"
| "getStatusText Completed = ''Ready for Q&A''"
| "getStatusText Error = ''Error occurred''"

text \<open>One row of the list (lines 183--225): \<open>row_bar\<close> is the \<open>Progress\<close> value, if shown.\<close>

record file_row =
  row_key :: js_id
  row_name :: string
  row_size :: string
  row_icon :: status_icon
  row_text :: string
  row_bar :: "nat option"

definition render_file :: "uploaded_file \<Rightarrow> file_row" where
  "render_file f =
     \<lparr>row_key = uf_id f, row_name = uf_name f, row_size = uf_size f,
      row_icon = getStatusIcon (uf_status f), row_text = getStatusText (uf_status f),
      row_bar = (if uf_status f = Uploading \<or> uf_status f = Processing then Some (uf_progress f)
                 else None)\<rparr>"

record uploader_view =
  drop_title :: string
  list_heading :: "string option"
  file_rows :: "file_row list"

text \<open>
  The whole render (lines 121--231), for the \<open>isDragActive\<close> flag of react-dropzone and
  the list \<open>fs\<close> held in the \<open>uploadedFiles\<close> state.
\<close>

definition render_uploader :: "bool \<Rightarrow> files \<Rightarrow> uploader_view" where
  "render_uploader isDragActive fs =
     \<lparr>drop_title = (if isDragActive then ''Drop your PDFs here!'' else ''Upload your study materials''),
      list_heading =
        (if 0 < length fs
         then Some (''Uploaded Documents ('' @ string_of_nat (length fs) @ '')'') else None),
      file_rows = (if 0 < length fs then map render_file fs else [])\<rparr>"

text \<open>
  A row is consistent when it shows no error, a progress bar exactly when the file
  is not ready, and a bar value within the range of the \<open>Progress\<close> component.
\<close>

definition row_ok :: "file_row \<Rightarrow> bool" where
  "row_ok r \<longleftrightarrow>
     row_icon r \<noteq> AlertCircle \<and> row_text r \<noteq> ''Error occurred'' \<and>
     (row_bar r = None) = (row_text r = ''Ready for Q&A'') \<and> pred_option (\<lambda>v. v \<le> 100) (row_bar r)"

text \<open>
  The (text, bar) pairs a row is painted with while a file goes through
  \<open>processFile\<close>: once after the synchronous \<open>AddFile\<close>, then once per timer callback.
\<close>

definition processFile_painted :: "(string \<times> nat option) list" where
  "processFile_painted =
     [(''Uploading...'', Some 0)] @ map (\<lambda>k. (''Uploading...'', Some (10 * k))) [0..<10] @
     [(''Processing PDF...'', Some 0)] @ map (\<lambda>k. (''Processing PDF...'', Some (20 * k))) [0..<5] @
     [(''Ready for Q&A'', None)]"

section \<open>Lemmas\<close>

lemma file_ok_row_ok: "file_ok f \<Longrightarrow> row_ok (render_file f)"
  by (cases "uf_status f") (simp_all add: file_ok_def row_ok_def render_file_def)

lemma upl_reachable_inv: "upl_inv (fst (upl_run upl_init evs))"
  by (rule upl_run_inv) (simp add: upl_inv_def upl_init_def)

lemma render_rows_ok: "list_all file_ok fs \<Longrightarrow> list_all row_ok (file_rows (render_uploader d fs))"
  by (auto simp: render_uploader_def list_all_iff file_ok_row_ok)

section \<open>Properties of the rendered list\<close>

text \<open>
  C23: Whatever the order of drops, removals and timers, every row the widget renders
  is consistent: no error icon or text, a progress bar exactly while the file is not
  ready, and a bar value within 0..100.
\<close>

theorem reachable_rows_ok:
  "list_all row_ok (file_rows (render_uploader d (uploadedFiles (fst (upl_run upl_init evs)))))"
  using upl_reachable_inv [of evs] by (intro render_rows_ok) (simp add: upl_inv_def)

text \<open>
  C24: While \<open>processFile\<close> runs alone, the list is painted once after the file is
  added and once per timer callback (React batches the updates of one callback). The
  rows above the new file stay as they were, and the new file's row shows its name
  and formatted size with, in turn: ``Uploading...'' and a bar at 0, 0, 10, ..., 90;
  then ``Processing PDF...'' and a bar at 0, 0, 20, ..., 80; then ``Ready for Q\&A''
  with the check icon and no bar. The bar is never painted at 100: the update to 100
  of each phase is batched with the next status change.
\<close>

theorem processFile_rows:
  assumes "fileId \<notin> uf_id ` set fs"
  shows "map (\<lambda>fs'. file_rows (render_uploader d fs'))
             (paint_trace (segments (processFile_code fileId file)) fs) =
         map (\<lambda>(t, b). map render_file fs @
                [\<lparr>row_key = fileId, row_name = fname file, row_size = formatFileSize (fsize file),
                  row_icon = (if b = None then CheckCircle2 else Loader2), row_text = t, row_bar = b\<rparr>])
             processFile_painted"
  unfolding processFile_paint_trace [OF assms]
  by (simp add: processFile_segments render_uploader_def render_file_def new_file_def upt_rec
      processFile_painted_def)

section \<open>Witnesses\<close>

theorem processFile_rows_witness:
  "''a'' \<notin> uf_id ` set [] \<and>
   map (\<lambda>fs'. file_rows (render_uploader False fs'))
       (paint_trace (segments (processFile_code ''a''
          \<lparr>fname = ''n.pdf'', fsize = 2048, ftype = ''application/pdf''\<rparr>)) []) =
   map (\<lambda>(t, b). map render_file [] @
          [\<lparr>row_key = ''a'', row_name = ''n.pdf'', row_size = formatFileSize 2048,
            row_icon = (if b = None then CheckCircle2 else Loader2), row_text = t, row_bar = b\<rparr>])
       processFile_painted"
  using processFile_rows [of "''a''" "[]" False "\<lparr>fname = ''n.pdf'', fsize = 2048, ftype = ''application/pdf''\<rparr>"]
  by simp

end
