(* ===== verification/ChatView.thy ===== *)
theory ChatView
  imports Chat
begin

text \<open>
  What the chat widget renders (ChatInterface.tsx lines 114--242), as a pure function
  of its state and of the number of documents the page passes in: the header line,
  one bubble per message (its React key, side, avatar and text), the suggested
  questions, and the enabled state of the input and the send button. Markup, classes,
  animation and scrolling are dropped.
\<close>

section \<open>Definitions\<close>

text \<open>The header line (lines 124--128), for \<open>uploadedFiles.length\<close>.\<close>

definition chat_header :: "nat \<Rightarrow> string" where
  "chat_header n =
     (if 0 < n then ''Analyzing '' @ string_of_nat n @ '' document'' @ (if 1 < n then ''s'' else [])
      else ''Ready to help you learn'')"

text \<open>
  The avatar of a bubble (lines 152--160 and 181--185): the AI's bot, or a spinner
  while the message is the typing indicator, on the left; the user's icon on the
  right.
\<close>

datatype avatar = BotAvatar | SpinnerAvatar | UserAvatar

record bubble =
  bubble_key :: js_id
  bubble_side :: sender
  bubble_avatar :: avatar
  bubble_text :: string

text \<open>One message (lines 144--187); the card reads ``Thinking'' for the typing indicator.\<close>

definition render_message :: "message \<Rightarrow> bubble" where
  "render_message m =
     \<lparr>bubble_key = msg_id m, bubble_side = sender m,
      bubble_avatar = (if sender m = Ai then (if isTyping m then SpinnerAvatar else BotAvatar)
                       else UserAvatar),
      bubble_text = (if isTyping m then ''Thinking'' else content m)\<rparr>"

record chat_view =
  header :: string
  bubbles :: "bubble list"
  suggestion_buttons :: "string list"
  input_disabled :: bool
  send_disabled :: bool
  send_spinner :: bool

text \<open>
  The whole render: the suggestions are \<open>suggestedQuestions.slice(0, 3)\<close> while
  \<open>messages.length <= 1\<close> (lines 193--213); the input is disabled while loading
  (line 224); the send button is disabled on a blank input or while loading (line
  228) and shows a spinner while loading (lines 232--236).
\<close>

definition render_chat :: "nat \<Rightarrow> chat_state \<Rightarrow> chat_view" where
  "render_chat n s =
     \<lparr>header = chat_header n, bubbles = map render_message (messages s),
      suggestion_buttons = (if suggestions_shown s then take 3 suggestedQuestions else []),
      input_disabled = isLoading s, send_disabled = (js_trim (inputValue s) = [] \<or> isLoading s),
      send_spinner = isLoading s\<rparr>"

text \<open>Every typing indicator is an AI message.\<close>

definition typing_from_ai :: "chat_state \<Rightarrow> bool" where
  "typing_from_ai s \<longleftrightarrow> list_all (\<lambda>m. \<not> isTyping m \<or> sender m = Ai) (messages s)"

section \<open>Lemmas\<close>

lemma typing_from_ai_step: "typing_from_ai s \<Longrightarrow> typing_from_ai (chat_step s e)"
proof (cases e)
  case (SendClick now now')
  then show "typing_from_ai s \<Longrightarrow> typing_from_ai (chat_step s e)"
    by (cases "js_trim (inputValue s) = [] \<or> isLoading s")
       (simp_all add: typing_from_ai_def chat_handler_eqs)
next
  case (KeyPress key shiftKey now now')
  then show "typing_from_ai s \<Longrightarrow> typing_from_ai (chat_step s e)"
    by (cases "js_trim (inputValue s) = [] \<or> isLoading s")
       (simp_all add: typing_from_ai_def chat_handler_eqs handleKeyPress_def)
next
  case (ReplyTimer now k)
  then show "typing_from_ai s \<Longrightarrow> typing_from_ai (chat_step s e)"
    by (simp add: typing_from_ai_def ai_reply_eq list_all_iff)
qed (simp_all add: typing_from_ai_def handleSuggestedQuestion_def)

lemma typing_from_ai_run: "typing_from_ai s \<Longrightarrow> typing_from_ai (chat_run s evs)"
  unfolding chat_run_def by (induction evs arbitrary: s) (simp_all add: typing_from_ai_step)

lemma chat_reachable_invs: "chat_inv (chat_run (chat_init t) evs) \<and> typing_from_ai (chat_run (chat_init t) evs)"
  using chat_run_inv [OF chat_init_inv] typing_from_ai_run
  by (simp add: typing_from_ai_def chat_init_def)

lemma spinner_bubbles:
  "list_all (\<lambda>m. \<not> isTyping m \<or> sender m = Ai) ms \<Longrightarrow>
   map bubble_text (filter (\<lambda>b. bubble_avatar b = SpinnerAvatar) (map render_message ms)) =
   replicate (length (filter isTyping ms)) ''Thinking''"
  by (induction ms) (auto simp: render_message_def)

section \<open>Properties of the rendered chat\<close>

text \<open>
  C25: The send button is disabled exactly when a click on it would change nothing:
  its \<open>disabled\<close> condition (line 228) is the guard of \<open>handleSendMessage\<close> (line 88),
  so an enabled button always sends and a click the handler would drop cannot happen.
\<close>

theorem send_disabled_iff_ignored:
  "send_disabled (render_chat n s) \<longleftrightarrow> handleSendMessage now now' s = s"
proof (cases "js_trim (inputValue s) = [] \<or> isLoading s")
  case True
  then show ?thesis by (simp add: render_chat_def handleSendMessage_ignored)
next
  case False
  then have "length (messages (handleSendMessage now now' s)) = length (messages s) + 2"
    by (simp add: handleSendMessage_eq)
  then have "handleSendMessage now now' s \<noteq> s" by auto
  with False show ?thesis by (simp add: render_chat_def)
qed

text \<open>
  C26: In every state the widget reaches from its mount, the bubbles with the spinner
  avatar are exactly one ``Thinking'' bubble while the send button shows its spinner
  (a reply is pending) and none otherwise.
\<close>

theorem reachable_one_thinking_bubble:
  "map bubble_text (filter (\<lambda>b. bubble_avatar b = SpinnerAvatar)
                      (bubbles (render_chat n (chat_run (chat_init t) evs)))) =
   (if send_spinner (render_chat n (chat_run (chat_init t) evs)) then [''Thinking''] else [])"
proof -
  let ?s = "chat_run (chat_init t) evs"
  have inv: "chat_inv ?s" and ai: "typing_from_ai ?s" using chat_reachable_invs by blast+
  have "replies_due ?s = 0 \<or> replies_due ?s = 1" using inv by (auto simp: chat_inv_def)
  then show ?thesis
    using inv spinner_bubbles [of "messages ?s"] ai
    by (auto simp: render_chat_def chat_inv_def typing_from_ai_def)
qed

end
