(* ===== verification/Spec2Isabelle.thy ===== *)
theory Spec2Isabelle
  imports Page UploadView ChatView
begin

text \<open>
  \<^bold>\<open>StudyMate front end: a verification development.\<close>

  The repository (src/study-oracle/src) is a React front end with three widgets and
  one page. The landing view (components/StudyMate/HeroSection.tsx) only emits
  \<open>onGetStarted\<close>. The upload widget (PDFUploader.tsx) keeps the list of uploaded
  files and runs every dropped file through a timed two-phase progress sequence,
  then calls \<open>onFilesProcessed\<close>. The chat widget (ChatInterface.tsx) keeps the
  conversation, a text field and a loading flag, and answers each question after a
  2000 ms timer with one of five fixed strings. The page (pages/StudyMate.tsx) holds
  which view is shown, the files reported by the uploader and the active tab, and
  mounts the widgets in its tabs.

  \<^bold>\<open>Theories.\<close>
  \<^item> Prelude: the JavaScript primitives the code calls (\<open>trim\<close>, \<open>endsWith\<close>, integer
    \<open>toString\<close>, array reads that yield \<open>undefined\<close>), model type names, lemma
    collections, and the list lemmas shared by all \<open>prev.map(...)\<close> updaters.
  \<^item> FileSize: \<open>formatFileSize\<close> (PDFUploader.tsx lines 25--31) in exact arithmetic.
    \<open>unit_index\<close> (repeated division) is proved equal to the source's
    \<open>Math.floor(Math.log(bytes) / Math.log(1024))\<close> read over the reals; \<open>to_fixed2\<close>
    is \<open>toFixed(2)\<close> (the quotient by a power of 1024 is a dyadic rational, held
    exactly by a double); \<open>decimal_2dp\<close> prints the \<open>parseFloat\<close> result.
  \<^item> Upload: the record \<open>uploaded_file\<close> (interface \<open>UploadedFile\<close>), the datatype
    \<open>status\<close>, one definition per \<open>setUploadedFiles\<close> updater, the two progress loops
    (\<open>function\<close> with a measure, as the source's \<open>for\<close> loops), \<open>processFile\<close> as
    the list of updaters it issues and, as \<open>processFile_code\<close>, as its statements with
    the awaits, cut by \<open>segments\<close> into the batches React paints together (React 18
    automatic batching is assumed: the repository pins no React version under src/), \<open>onDrop\<close> as the list of actions it performs
    (with the list it reports read from the closure when the drop happened), the
    react-dropzone accept rule, and \<open>removeFile\<close>. The widget is the event machine
    \<open>upl_step\<close>: a drop appends a suspended call, a click removes a file, and
    \<open>Resume n\<close> lets call \<open>n\<close> perform its next action. Each updater is one step,
    which over-approximates React's batching of the updaters of one timer callback,
    so every invariant proved holds for the real interleavings. The model also defers
    the synchronous first action of a drop (the \<open>AddFile\<close>, or the report of an
    empty batch) to a \<open>Resume\<close> event; the real order is one of the modelled ones.
  \<^item> Chat: the records \<open>message\<close> and \<open>chat_state\<close>, \<open>handleSendMessage\<close> (the
    batched segment up to the \<open>await\<close>: guard, user message, cleared field, loading
    flag, typing indicator, timer started), \<open>ai_reply\<close> (the segment after the
    timer), \<open>handleKeyPress\<close>, \<open>handleSuggestedQuestion\<close>, and the event machine
    \<open>chat_step\<close>. \<open>Date.now()\<close> is the time carried by the event, a send carrying
    both reads its synchronous run makes (lines 91 and 53); \<open>Math.random()\<close>
    is the 53-bit integer \<open>k\<close> with value \<open>k / 2^53\<close>, and the product with the
    array length is taken exactly. The machine accepts typing and key presses while
    loading, although the input is then disabled: again a superset of what the user
    can do.
  \<^item> Page: the record \<open>page\<close>, its handlers, and \<open>reconcile\<close>, which mounts and
    unmounts the widgets as the render does: Radix \<open>TabsContent\<close> renders its
    children only while its tab is active, so a widget's state is lost when its tab
    is left and a fresh one starts from its initial state. The suspended drops of an
    unmounted uploader stay in \<open>orphans\<close>: their list updates are no-ops, their
    \<open>onFilesProcessed\<close> call still reaches the page.
  \<^item> UploadView and ChatView: the renders of the two widgets as pure functions of
    their state (PDFUploader.tsx lines 96--231, ChatInterface.tsx lines 114--242):
    \<open>getStatusIcon\<close>, \<open>getStatusText\<close>, the file rows and heading
    (\<open>render_uploader\<close>); the header line, the message bubbles, the suggestions and
    the disabled states of the input and the send button (\<open>render_chat\<close>).
  \<^item> Spec2Isabelle (this theory): the end-to-end scenario of the specification as a
    list of timed page events (\<open>e2e_upload\<close>, \<open>e2e_ask\<close>, \<open>e2e_as_specified\<close>,
    \<open>e2e_with_second_drop\<close>), computed through the lemmas of the component theories
    (a quiet uploader run is simulated by \<open>page_run_uploader_quiet\<close>, a drop run alone
    by \<open>upl_run_Drop_alone\<close>) rather than by evaluating the 30 steps.

  \<^bold>\<open>What is proved.\<close>
  Upload: \<open>processFile\<close> run alone ends with the file completed at 100 (C1) and its
  updaters pass through exactly the specified status/progress sequence (C2); under
  every interleaving no file is ever in the error state or past 100 (C3); a drop run
  without interference refines the sequential reading of \<open>onDrop\<close>, whose report is
  the list of files completed before the drop (C4); a removed file never comes back
  (C5).
  Page: a non-empty report opens the chat and unmounts the uploader (C6); the first
  batch never opens the chat, whatever the timer order (C7); returning to the upload
  tab and dropping again wipes the page's documents (C8).
  Whole page (this theory): the specification's end-to-end scenario, played on the
  code as written, ends without documents and without a chat (C9); with a second
  drop it ends as specified, with the file completed at 100 percent, one placeholder
  after the send and one of the five answers after the timer (C10).
  Chat: blank or concurrent sends are ignored (C11, C12); a send appends the user
  message then the placeholder (C13); at most one placeholder exists, exactly while
  loading (C14); every reply is one of the five strings and removes the placeholder
  (C15); the user message and the placeholder share their React key exactly when the
  two \<open>Date.now()\<close> reads fall in the same millisecond (C16); question then answer
  are kept in order (C17).
  File sizes: the unit index is the floor of the logarithm (C18); below 1 TiB the
  string is a number in [1, 1024] and a known unit (C19); from 1 TiB on the unit is
  \<open>undefined\<close> (C20); just below every unit boundary the string is \<open>1024\<close> of the
  smaller unit (C21); the printed number reads back as exactly the rounded value
  (C22).
  Views: in every reachable uploader state every row is consistent (no error, a bar
  exactly while not ready, values within 0..100) (C23); while a file is processed the
  painted row shows the specified texts, with bars up to 90 and 80 only, since each
  update to 100 is batched with the next status change (C24); the send button is
  disabled exactly when a click would be ignored (C25); in every reachable chat state
  there is one ``Thinking'' bubble while loading and none otherwise (C26); on the page
  the chat header always counts the documents, its ``Ready to help you learn'' branch
  is dead (C27).

  \<^bold>\<open>Bounds and fuel.\<close> No fuel is used: the two progress loops terminate by the
  measure \<open>101 - progress\<close>, all other recursion is structural, and the machines are
  driven by finite event lists. JavaScript numbers are \<open>nat\<close>: progress stays within
  0..100 and sizes within the exact range of doubles, so no wrap-around arises.

  \<^bold>\<open>Not modelled.\<close> Markup, styling and animation; the scroll effect of the chat;
  the library components (button, card, progress, scroll area); the float rounding
  of \<open>Math.log\<close>, \<open>Math.random() * 5\<close> and \<open>parseFloat\<close>, replaced by exact
  arithmetic as stated above; Unicode white space beyond ASCII in \<open>trim\<close>; the value
  of generated ids, which the environment supplies.
\<close>

section \<open>The end-to-end scenario of the specification\<close>

text \<open>
  The scenario of the specification's testable properties, driven through the page:
  the landing view's button, one PDF dropped on the uploader, the 21 timer callbacks
  of its \<open>processFile\<close> (10 progress steps, processing, 5 progress steps, completed)
  and the final \<open>onFilesProcessed\<close> call, then the question ``Summarize this'' typed,
  sent with the button, and the reply timer. Times are the \<open>Date.now()\<close> values of
  the events; the file id is the one \<open>Date.now()\<close> and \<open>Math.random()\<close> would build
  at time 1.
\<close>

definition notes_pdf :: js_file where
  "notes_pdf = \<lparr>fname = ''notes.pdf'', fsize = 2048, ftype = ''application/pdf''\<rparr>"

definition notes_done :: uploaded_file where
  "notes_done = (new_file ''1x7k2m9q4p'' notes_pdf)\<lparr>uf_status := Completed, uf_progress := 100\<rparr>"

definition e2e_upload :: "(ms \<times> page_event) list" where
  "e2e_upload =
     (0, GetStarted) #
     zip (1 # replicate 21 2) (map UploaderEv (Drop [(''1x7k2m9q4p'', notes_pdf)] # replicate 21 (Resume 0)))"

definition e2e_ask :: "nat \<Rightarrow> (ms \<times> page_event) list" where
  "e2e_ask k = [(4, ChatEv (Type ''Summarize this'')), (5, ChatEv (SendClick 5 5)), (6, ChatEv (ReplyTimer 6 k))]"

text \<open>As the specification words it: after the upload, switch to the chat tab and ask.\<close>

definition e2e_as_specified :: "nat \<Rightarrow> (ms \<times> page_event) list" where
  "e2e_as_specified k = e2e_upload @ (3, SelectTab ''chat'') # e2e_ask k"

text \<open>
  The path on which the code reaches the chat: a second (here empty) drop, whose
  \<open>onFilesProcessed\<close> call reads the completed file from its closure and opens the
  chat tab.
\<close>

definition e2e_with_second_drop :: "nat \<Rightarrow> (ms \<times> page_event) list" where
  "e2e_with_second_drop k =
     e2e_upload @ (2, UploaderEv (Drop [])) # (3, UploaderEv (Resume 1)) # e2e_ask k"

text \<open>The chat at the end of that path, for the random draw \<open>k\<close>.\<close>

definition e2e_final :: "nat \<Rightarrow> chat_state" where
  "e2e_final k = (chat_init 3)\<lparr>messages := messages (chat_init 3) @
                    [user_message 5 ''Summarize this'', ai_message 6 k]\<rparr>"

section \<open>Scenario lemmas\<close>

lemma e2e_upload_uploader:
  "upl_run upl_init (Drop [(''1x7k2m9q4p'', notes_pdf)] # replicate 21 (Resume 0)) =
   (\<lparr>uploadedFiles = [notes_done], pending = [[]]\<rparr>, [[]])"
proof -
  let ?b = "[(''1x7k2m9q4p'', notes_pdf)]"
  have acc: "filter (\<lambda>(i, f). pdf_accepted f) ?b = ?b"
    by (simp add: pdf_accepted_def notes_pdf_def ascii_lower_other)
  have len: "length (onDrop [] ?b) = 21"
    by (simp add: onDrop_def processFile_def upload_loop.simps processing_loop.simps)
  have "fst (run_actions (onDrop [] ?b) []) = [notes_done]"
    by (simp add: run_actions_onDrop processFile_fold upload_loop.simps processing_loop.simps
        notes_done_def)
  moreover have "snd (run_actions (onDrop [] ?b) []) = [[]]"
    by (simp add: run_actions_onDrop)
  moreover have "upl_run upl_init (Drop ?b # replicate 21 (Resume 0)) =
      (upl_init\<lparr>uploadedFiles := fst (run_actions (onDrop [] ?b) []), pending := [[]]\<rparr>,
       snd (run_actions (onDrop [] ?b) []))"
    using upl_run_Drop_alone [of upl_init ?b] unfolding acc
    by (simp only: upl_init_def uploader.simps list.size(3) append.simps(1) len)
  ultimately show ?thesis by (simp add: upl_init_def)
qed

lemma e2e_upload_run:
  "page_run page_init e2e_upload =
   page_init\<lparr>showMainApp := True, uploader_inst := Some \<lparr>uploadedFiles = [notes_done], pending = [[]]\<rparr>\<rparr>"
proof -
  let ?P1 = "page_init\<lparr>showMainApp := True, uploader_inst := Some upl_init\<rparr>"
  let ?es = "Drop [(''1x7k2m9q4p'', notes_pdf)] # replicate 21 (Resume 0)"
  have quiet: "list_all (\<lambda>fs. fs = []) (snd (upl_run upl_init ?es))"
    by (simp only: e2e_upload_uploader) simp
  have "page_run ?P1 (zip (1 # replicate 21 2) (map UploaderEv ?es)) =
        ?P1\<lparr>uploader_inst := Some (fst (upl_run upl_init ?es)),
             page_files := (if snd (upl_run upl_init ?es) = [] then page_files ?P1 else [])\<rparr>"
    by (rule page_run_uploader_quiet [OF _ _ _ _ quiet]) (simp_all add: uploader_shown_def page_init_def)
  then have "page_run ?P1 (zip (1 # replicate 21 2) (map UploaderEv ?es)) =
        ?P1\<lparr>uploader_inst := Some \<lparr>uploadedFiles = [notes_done], pending = [[]]\<rparr>, page_files := []\<rparr>"
    by (simp only: e2e_upload_uploader) (simp add: page_init_def)
  then show ?thesis
    unfolding e2e_upload_def page_run_Cons [of page_init] page_step_GetStarted_init
    by (simp add: page_init_def)
qed

lemma summarize_not_blank: "js_trim ''Summarize this'' \<noteq> []"
  by (simp add: js_trim_Nil_iff js_whitespace_def)

lemma e2e_second_drop_run:
  "page_run page_init (e2e_upload @ [(2, UploaderEv (Drop [])), (3, UploaderEv (Resume 1))]) =
   page_init\<lparr>showMainApp := True, page_files := [notes_done], activeTab := ''chat'',
             chat_inst := Some (chat_init 3), orphans := [[], []]\<rparr>"
proof -
  have "uf_status notes_done = Completed" by (simp add: notes_done_def)
  then show ?thesis
    unfolding page_run_append e2e_upload_run
    by (simp add: page_run_def page_step_def deliver_def handleFilesProcessed_def reconcile_def
        page_init_def uploader_shown_def chat_shown_def onDrop_Nil)
qed

lemma e2e_with_second_drop_run:
  fixes p :: page
  defines "p \<equiv> page_init\<lparr>showMainApp := True, page_files := [notes_done], activeTab := ''chat'',
                         chat_inst := Some (chat_init 3), orphans := [[], []]\<rparr>"
  shows "page_run page_init (butlast (e2e_with_second_drop k)) =
           p\<lparr>chat_inst := Some ((chat_init 3)\<lparr>messages := messages (chat_init 3) @
                [user_message 5 ''Summarize this'', typing_message 5], isLoading := True,
                replies_due := 1\<rparr>)\<rparr>"
    and "page_run page_init (e2e_with_second_drop k) = p\<lparr>chat_inst := Some (e2e_final k)\<rparr>"
proof -
  let ?pre = "e2e_upload @ [(2, UploaderEv (Drop [])), (3, UploaderEv (Resume 1))]"
  have "e2e_with_second_drop k = ?pre @ e2e_ask k"
    and "butlast (e2e_with_second_drop k) = ?pre @ butlast (e2e_ask k)"
    by (simp_all add: e2e_with_second_drop_def e2e_ask_def butlast_append)
  then have run: "page_run page_init (e2e_with_second_drop k) = page_run p (e2e_ask k)"
    and run': "page_run page_init (butlast (e2e_with_second_drop k)) = page_run p (butlast (e2e_ask k))"
    by (simp_all only: page_run_append [of page_init ?pre] e2e_second_drop_run p_def)
  show "page_run page_init (butlast (e2e_with_second_drop k)) =
          p\<lparr>chat_inst := Some ((chat_init 3)\<lparr>messages := messages (chat_init 3) @
               [user_message 5 ''Summarize this'', typing_message 5], isLoading := True,
               replies_due := 1\<rparr>)\<rparr>"
    and "page_run page_init (e2e_with_second_drop k) = p\<lparr>chat_inst := Some (e2e_final k)\<rparr>"
    unfolding run run' using summarize_not_blank
    by (simp_all add: p_def e2e_ask_def e2e_final_def page_run_def page_step_def reconcile_def
        page_init_def uploader_shown_def chat_shown_def handleSendMessage_eq ai_reply_eq chat_init_def)
qed

section \<open>Properties of the whole page\<close>

text \<open>
  C9: The scenario as the specification words it does not reach the chat in the code.
  The only \<open>onFilesProcessed\<close> call of the first drop reports the (empty) list of
  files completed before the drop, so the page keeps no documents; the chat tab then
  shows ``No documents uploaded yet'' instead of the chat widget, so typing, sending
  and the reply timer have no effect; and leaving the upload tab unmounts the
  uploader, whose completed file is lost.
\<close>

theorem e2e_as_specified_no_chat:
  "page_run page_init (e2e_as_specified k) =
   page_init\<lparr>showMainApp := True, activeTab := ''chat'', orphans := [[]]\<rparr>"
  unfolding e2e_as_specified_def page_run_append e2e_upload_run
  by (simp add: e2e_ask_def page_run_def page_step_def setActiveTab_def reconcile_def page_init_def
      uploader_shown_def chat_shown_def)

text \<open>
  C10: With a second drop to bring the report, the scenario ends as the specification
  says. The page holds the dropped file, completed at 100 percent and sized
  \<open>2 KB\<close>, and shows the chat. After the send, the chat holds the welcome message, the
  question and one placeholder. After the reply timer, the placeholder has been
  replaced by one of the five fixed answers, with the question kept before it.
\<close>

theorem e2e_second_drop_reply:
  assumes "k < 2 ^ 53"
  shows "page_files (page_run page_init (e2e_with_second_drop k)) =
           [\<lparr>uf_id = ''1x7k2m9q4p'', uf_file = notes_pdf, uf_name = ''notes.pdf'', uf_size = ''2 KB'',
             uf_status = Completed, uf_progress = 100\<rparr>] \<and>
         activeTab (page_run page_init (e2e_with_second_drop k)) = ''chat'' \<and>
         map_option (\<lambda>c. map (\<lambda>m. (sender m, content m, isTyping m)) (messages c))
           (chat_inst (page_run page_init (butlast (e2e_with_second_drop k)))) =
           Some [(Ai, welcome_text, False), (User, ''Summarize this'', False), (Ai, [], True)] \<and>
         (\<exists>c r. chat_inst (page_run page_init (e2e_with_second_drop k)) = Some c \<and>
                map (\<lambda>m. (sender m, content m, isTyping m)) (messages c) =
                  [(Ai, welcome_text, False), (User, ''Summarize this'', False), (Ai, r, False)] \<and>
                r \<in> set responses \<and> \<not> isLoading c)"
proof -
  have size: "formatFileSize 2048 = ''2 KB''"
    unfolding formatFileSize_def Let_def by (simp add: format_eval)
  show ?thesis
    unfolding e2e_with_second_drop_run e2e_final_def
    using ai_message_in_responses [OF assms, of 6] size
    by (simp add: notes_done_def new_file_def notes_pdf_def chat_init_def user_message_def
        typing_message_def)
qed

text \<open>
  C27: Whenever the page has the chat widget mounted, it holds at least one document,
  so the chat header reads ``Analyzing n document(s)'' with n the number of documents
  of the page: its branch ``Ready to help you learn'' is never rendered.
\<close>

theorem page_chat_header_analyzing:
  assumes "chat_inst (page_run page_init evs) = Some c"
  shows "header (render_chat (length (page_files (page_run page_init evs))) c) \<noteq>
           ''Ready to help you learn'' \<and>
         take 10 (header (render_chat (length (page_files (page_run page_init evs))) c)) = ''Analyzing ''"
  using page_run_chat_files [of evs] assms by (simp add: render_chat_def chat_header_def)

section \<open>Witnesses\<close>

theorem e2e_second_drop_reply_witness:
  "(0::nat) < 2 ^ 53 \<and>
   activeTab (page_run page_init (e2e_with_second_drop 0)) = ''chat'' \<and>
   (\<exists>c r. chat_inst (page_run page_init (e2e_with_second_drop 0)) = Some c \<and>
          map (\<lambda>m. (sender m, content m, isTyping m)) (messages c) =
            [(Ai, welcome_text, False), (User, ''Summarize this'', False), (Ai, r, False)] \<and>
          r \<in> set responses \<and> \<not> isLoading c)"
  using e2e_second_drop_reply [of 0] by simp

theorem page_chat_header_analyzing_witness:
  "chat_inst (page_run page_init (e2e_with_second_drop 0)) = Some (e2e_final 0) \<and>
   header (render_chat (length (page_files (page_run page_init (e2e_with_second_drop 0)))) (e2e_final 0)) =
     ''Analyzing 1 document''"
proof -
  have run: "chat_inst (page_run page_init (e2e_with_second_drop 0)) = Some (e2e_final 0)"
    by (simp add: e2e_with_second_drop_run)
  have "header (render_chat (length (page_files (page_run page_init (e2e_with_second_drop 0))))
          (e2e_final 0)) \<noteq> ''Ready to help you learn''"
    using page_chat_header_analyzing [OF run] by simp
  then show ?thesis
    using run by (simp add: e2e_with_second_drop_run render_chat_def chat_header_def string_of_nat.simps
        digit_char_def decimal_digits_def)
qed

end
